theory Spec2Isabelle
  imports Main "HOL-Library.AList"
begin

section \<open>Overview\<close>

text \<open>
  The theory models the JSON-RPC server of mcp-godocker: the registry of tools and the
  methods \<^verbatim>\<open>RegisterTool\<close>, \<^verbatim>\<open>NewServer\<close>, \<^verbatim>\<open>ExecutePlan\<close> and
  \<^verbatim>\<open>CallTool\<close> of the server's main package, the functions of \<^verbatim>\<open>pkg/docker\<close>
  the registered handlers call, and the envelope types of \<^verbatim>\<open>pkg/mcp\<close>. What the
  server takes from Go's standard library is modelled as the library documents it: the
  decoder of \<^verbatim>\<open>encoding/json\<close> and the deadlines of \<^verbatim>\<open>context\<close>. The Docker
  engine behind the client is a parameter of the model. Logging is left out.
\<close>

section \<open>The values encoding/json produces\<close>

text \<open>
  The server decodes a plan with \<^verbatim>\<open>json.Unmarshal\<close> into
  \<^verbatim>\<open>[]map[string]interface{}\<close>. A decoded \<^verbatim>\<open>interface{}\<close> is nil, a bool, a
  float64, a string, a \<^verbatim>\<open>[]interface{}\<close> or a \<^verbatim>\<open>map[string]interface{}\<close>. A Go
  map is an association list here: \<open>map_of\<close> reads a key, a write replaces the entry of
  the key (\<open>AList.update\<close>), and the nil map is the empty list (reading a key of a nil map
  gives the zero value, as reading a missing key does). No handler looks at a number, so a
  number keeps the text of its literal.
\<close>

datatype json =
    JNull
  | JBool bool
  | JNumber string
  | JString string
  | JArray "json list"
  | JObject "(string \<times> json) list"

type_synonym gomap = "(string \<times> json) list"

subsection \<open>Scanning\<close>

text \<open>
  The scanner follows the state machine of encoding/json's \<^verbatim>\<open>scanner.go\<close> one byte at
  a time: the states of a number (\<^verbatim>\<open>stateNeg\<close>, \<^verbatim>\<open>state0\<close>, \<^verbatim>\<open>state1\<close>,
  \<^verbatim>\<open>stateDot\<close>, \<^verbatim>\<open>stateDot0\<close>, \<^verbatim>\<open>stateE\<close>, \<^verbatim>\<open>stateESign\<close>, \<^verbatim>\<open>stateE0\<close>), of a
  string and its escapes, and of the three literals. It yields the tokens of the text, or
  nothing when a byte is not allowed where it stands.
\<close>

datatype token =
    TLBracket | TRBracket | TLBrace | TRBrace | TColon | TComma
  | TString string | TNumber string | TTrue | TFalse | TNull

datatype num_state = NNeg | N0 | N1 | NDot | NDot0 | NE | NESign | NE0

datatype scan_state =
    Between
  | InString string
  | InStringEsc string
  | InStringEscU string nat
  | InLiteral string token
  | InNumber num_state string

definition byte :: "char \<Rightarrow> nat" where
  "byte c = of_char c"

definition isSpace :: "char \<Rightarrow> bool" where
  "isSpace c \<longleftrightarrow> byte c = 0x20 \<or> byte c = 0x09 \<or> byte c = 0x0D \<or> byte c = 0x0A"

definition isDigit :: "char \<Rightarrow> bool" where
  "isDigit c \<longleftrightarrow> 0x30 \<le> byte c \<and> byte c \<le> 0x39"

definition isHex :: "char \<Rightarrow> bool" where
  "isHex c \<longleftrightarrow> isDigit c \<or> (0x61 \<le> byte c \<and> byte c \<le> 0x66) \<or> (0x41 \<le> byte c \<and> byte c \<le> 0x46)"

definition hexval :: "char \<Rightarrow> nat" where
  "hexval c = (if isDigit c then byte c - 0x30
               else if 0x61 \<le> byte c then byte c - 0x61 + 10
               else byte c - 0x41 + 10)"

text \<open>\<^verbatim>\<open>getu4\<close>: the number written by four hexadecimal digits.\<close>

definition getu4 :: "string \<Rightarrow> nat" where
  "getu4 ds = foldl (\<lambda>r d. r * 16 + hexval d) 0 (take 4 ds)"

text \<open>\<^verbatim>\<open>utf8.EncodeRune\<close>; a surrogate or a value above U+10FFFF is written as U+FFFD.\<close>

definition utf8_encode :: "nat \<Rightarrow> string" where
  "utf8_encode r =
     (if r < 0x80 then [char_of r]
      else if r < 0x800 then [char_of (0xC0 + r div 64), char_of (0x80 + r mod 64)]
      else if (0xD800 \<le> r \<and> r < 0xE000) \<or> 0x10FFFF < r then [char_of (0xEF::nat), char_of (0xBF::nat), char_of (0xBD::nat)]
      else if r < 0x10000 then
        [char_of (0xE0 + r div 4096), char_of (0x80 + (r div 64) mod 64), char_of (0x80 + r mod 64)]
      else
        [char_of (0xF0 + r div 262144), char_of (0x80 + (r div 4096) mod 64),
         char_of (0x80 + (r div 64) mod 64), char_of (0x80 + r mod 64)])"

text \<open>
  \<^verbatim>\<open>utf8.DecodeRune\<close>, as far as \<^verbatim>\<open>unquote\<close> needs it: the number of bytes of the
  well-formed UTF-8 sequence the text starts with, or 0 when it starts with none.
\<close>

definition isCont :: "char \<Rightarrow> bool" where
  "isCont c \<longleftrightarrow> 0x80 \<le> byte c \<and> byte c \<le> 0xBF"

fun utf8_len :: "string \<Rightarrow> nat" where
  "utf8_len [] = 0"
| "utf8_len (c # cs) =
     (let b = byte c in
      if 0xC2 \<le> b \<and> b \<le> 0xDF then
        (case cs of c1 # _ \<Rightarrow> if isCont c1 then 2 else 0 | _ \<Rightarrow> 0)
      else if 0xE0 \<le> b \<and> b \<le> 0xEF then
        (case cs of c1 # c2 # _ \<Rightarrow>
           if (if b = 0xE0 then 0xA0 else 0x80) \<le> byte c1
              \<and> byte c1 \<le> (if b = 0xED then 0x9F else 0xBF) \<and> isCont c2
           then 3 else 0
         | _ \<Rightarrow> 0)
      else if 0xF0 \<le> b \<and> b \<le> 0xF4 then
        (case cs of c1 # c2 # c3 # _ \<Rightarrow>
           if (if b = 0xF0 then 0x90 else 0x80) \<le> byte c1
              \<and> byte c1 \<le> (if b = 0xF4 then 0x8F else 0xBF) \<and> isCont c2 \<and> isCont c3
           then 4 else 0
         | _ \<Rightarrow> 0)
      else 0)"

text \<open>
  \<^verbatim>\<open>unquote\<close> of \<^verbatim>\<open>decode.go\<close>, on the text between the quotes of a literal the
  scanner has accepted: escapes are replaced, a pair of \<^verbatim>\<open>\u\<close> surrogates is one
  rune, a lone surrogate and an ill-formed byte become U+FFFD.
\<close>

definition unescape :: "char \<Rightarrow> char" where
  "unescape e =
     (if e = CHR ''b'' then char_of (0x08::nat)
      else if e = CHR ''f'' then char_of (0x0C::nat)
      else if e = CHR ''n'' then char_of (0x0A::nat)
      else if e = CHR ''r'' then char_of (0x0D::nat)
      else if e = CHR ''t'' then char_of (0x09::nat)
      else e)"

definition is_u_escape :: "string \<Rightarrow> bool" where
  "is_u_escape s \<longleftrightarrow> 6 \<le> length s \<and> s ! 0 = CHR 0x5C \<and> s ! 1 = CHR ''u''"

fun unquote :: "string \<Rightarrow> string" where
  "unquote [] = []"
| "unquote (c # cs) =
     (if c = CHR 0x5C then
        (case cs of
           [] \<Rightarrow> []
         | e # rest \<Rightarrow>
             if e = CHR ''u'' then
               (let rr = getu4 rest; rest' = drop 4 rest in
                if 0xD800 \<le> rr \<and> rr < 0xE000 then
                  (let rr1 = getu4 (drop 2 rest') in
                   if is_u_escape rest' \<and> rr < 0xDC00 \<and> 0xDC00 \<le> rr1 \<and> rr1 < 0xE000
                   then utf8_encode ((rr - 0xD800) * 1024 + (rr1 - 0xDC00) + 0x10000)
                          @ unquote (drop 6 rest')
                   else utf8_encode 0xFFFD @ unquote rest')
                else utf8_encode rr @ unquote rest')
             else unescape e # unquote rest)
      else if byte c < 0x80 then c # unquote cs
      else
        (let n = utf8_len (c # cs) in
         if n = 0 then utf8_encode 0xFFFD @ unquote cs
         else c # take (n - 1) cs @ unquote (drop (n - 1) cs)))"

text \<open>One byte in the state between two tokens (\<^verbatim>\<open>stateBeginValue\<close> and its kin).\<close>

definition scan_between :: "char \<Rightarrow> (scan_state \<times> token list) option" where
  "scan_between c =
     (if isSpace c then Some (Between, [])
      else if c = CHR ''['' then Some (Between, [TLBracket])
      else if c = CHR '']'' then Some (Between, [TRBracket])
      else if c = CHR ''{'' then Some (Between, [TLBrace])
      else if c = CHR ''}'' then Some (Between, [TRBrace])
      else if c = CHR '':'' then Some (Between, [TColon])
      else if c = CHR '','' then Some (Between, [TComma])
      else if c = CHR 0x22 then Some (InString [], [])
      else if c = CHR ''-'' then Some (InNumber NNeg [c], [])
      else if c = CHR ''0'' then Some (InNumber N0 [c], [])
      else if isDigit c then Some (InNumber N1 [c], [])
      else if c = CHR ''t'' then Some (InLiteral ''rue'' TTrue, [])
      else if c = CHR ''f'' then Some (InLiteral ''alse'' TFalse, [])
      else if c = CHR ''n'' then Some (InLiteral ''ull'' TNull, [])
      else None)"

text \<open>The byte after a complete number ends it and is scanned as the next token's.\<close>

definition scan_end_number :: "string \<Rightarrow> char \<Rightarrow> (scan_state \<times> token list) option" where
  "scan_end_number buf c =
     (case scan_between c of
        None \<Rightarrow> None
      | Some (st, toks) \<Rightarrow> Some (st, TNumber buf # toks))"

text \<open>\<^verbatim>\<open>state0\<close>: after the integer part.\<close>

definition scan_after_int :: "string \<Rightarrow> char \<Rightarrow> (scan_state \<times> token list) option" where
  "scan_after_int buf c =
     (if c = CHR ''.'' then Some (InNumber NDot (buf @ [c]), [])
      else if c = CHR ''e'' \<or> c = CHR ''E'' then Some (InNumber NE (buf @ [c]), [])
      else scan_end_number buf c)"

fun scan_number :: "num_state \<Rightarrow> string \<Rightarrow> char \<Rightarrow> (scan_state \<times> token list) option" where
  "scan_number NNeg buf c =
     (if c = CHR ''0'' then Some (InNumber N0 (buf @ [c]), [])
      else if isDigit c then Some (InNumber N1 (buf @ [c]), [])
      else None)"
| "scan_number N1 buf c =
     (if isDigit c then Some (InNumber N1 (buf @ [c]), [])
      else scan_after_int buf c)"
| "scan_number N0 buf c = scan_after_int buf c"
| "scan_number NDot buf c =
     (if isDigit c then Some (InNumber NDot0 (buf @ [c]), []) else None)"
| "scan_number NDot0 buf c =
     (if isDigit c then Some (InNumber NDot0 (buf @ [c]), [])
      else if c = CHR ''e'' \<or> c = CHR ''E'' then Some (InNumber NE (buf @ [c]), [])
      else scan_end_number buf c)"
| "scan_number NE buf c =
     (if c = CHR ''+'' \<or> c = CHR ''-'' then Some (InNumber NESign (buf @ [c]), [])
      else if isDigit c then Some (InNumber NE0 (buf @ [c]), [])
      else None)"
| "scan_number NESign buf c =
     (if isDigit c then Some (InNumber NE0 (buf @ [c]), []) else None)"
| "scan_number NE0 buf c =
     (if isDigit c then Some (InNumber NE0 (buf @ [c]), [])
      else scan_end_number buf c)"

fun scan_step :: "scan_state \<Rightarrow> char \<Rightarrow> (scan_state \<times> token list) option" where
  "scan_step Between c = scan_between c"
| "scan_step (InString raw) c =
     (if c = CHR 0x22 then Some (Between, [TString (unquote raw)])
      else if c = CHR 0x5C then Some (InStringEsc (raw @ [c]), [])
      else if byte c < 0x20 then None
      else Some (InString (raw @ [c]), []))"
| "scan_step (InStringEsc raw) c =
     (if c = CHR ''b'' \<or> c = CHR ''f'' \<or> c = CHR ''n'' \<or> c = CHR ''r'' \<or> c = CHR ''t''
         \<or> c = CHR 0x5C \<or> c = CHR ''/'' \<or> c = CHR 0x22
      then Some (InString (raw @ [c]), [])
      else if c = CHR ''u'' then Some (InStringEscU (raw @ [c]) 0, [])
      else None)"
| "scan_step (InStringEscU raw n) c =
     (if isHex c
      then Some (if n = 3 then InString (raw @ [c]) else InStringEscU (raw @ [c]) (Suc n), [])
      else None)"
| "scan_step (InLiteral [] tok) c = None"
| "scan_step (InLiteral (x # xs) tok) c =
     (if c = x then Some (if xs = [] then (Between, [tok]) else (InLiteral xs tok, []))
      else None)"
| "scan_step (InNumber ns buf) c = scan_number ns buf c"

text \<open>The end of the text: only a complete number may still be open.\<close>

fun scan_eof :: "scan_state \<Rightarrow> token list option" where
  "scan_eof Between = Some []"
| "scan_eof (InNumber ns buf) =
     (if ns = N0 \<or> ns = N1 \<or> ns = NDot0 \<or> ns = NE0 then Some [TNumber buf] else None)"
| "scan_eof _ = None"

fun scan :: "scan_state \<Rightarrow> string \<Rightarrow> token list option" where
  "scan st [] = scan_eof st"
| "scan st (c # cs) =
     (case scan_step st c of
        None \<Rightarrow> None
      | Some (st', toks) \<Rightarrow> map_option ((@) toks) (scan st' cs))"

subsection \<open>Building the value\<close>

text \<open>
  The tokens are read with an explicit stack of the arrays and objects that are still
  open, as the scanner's \<^verbatim>\<open>parseState\<close> stack is. A member of an object is written
  into the map when its value is complete, so of two members with one key the later
  stays. At most \<^verbatim>\<open>maxNestingDepth\<close> = 10000 arrays and objects may be open at once.
\<close>

datatype frame =
    FArray "json list"
  | FObject gomap
  | FMember gomap string

datatype parse_state =
    PValue
  | PArrayStart
  | PObjectStart
  | PKey
  | PColon
  | PAfter
  | PDone json

definition maxNestingDepth :: nat where
  "maxNestingDepth = 10000"

fun deliver :: "json \<Rightarrow> frame list \<Rightarrow> (parse_state \<times> frame list) option" where
  "deliver v [] = Some (PDone v, [])"
| "deliver v (FArray xs # st) = Some (PAfter, FArray (xs @ [v]) # st)"
| "deliver v (FMember ms k # st) = Some (PAfter, FObject (AList.update k v ms) # st)"
| "deliver v (FObject ms # st) = None"

definition begin_value :: "token \<Rightarrow> frame list \<Rightarrow> (parse_state \<times> frame list) option" where
  "begin_value t st =
     (case t of
        TString s \<Rightarrow> deliver (JString s) st
      | TNumber n \<Rightarrow> deliver (JNumber n) st
      | TTrue \<Rightarrow> deliver (JBool True) st
      | TFalse \<Rightarrow> deliver (JBool False) st
      | TNull \<Rightarrow> deliver JNull st
      | TLBracket \<Rightarrow>
          if length st < maxNestingDepth then Some (PArrayStart, FArray [] # st) else None
      | TLBrace \<Rightarrow>
          if length st < maxNestingDepth then Some (PObjectStart, FObject [] # st) else None
      | _ \<Rightarrow> None)"

definition begin_key :: "token \<Rightarrow> frame list \<Rightarrow> (parse_state \<times> frame list) option" where
  "begin_key t st =
     (case (t, st) of
        (TString k, FObject ms # st') \<Rightarrow> Some (PColon, FMember ms k # st')
      | _ \<Rightarrow> None)"

definition end_array :: "frame list \<Rightarrow> (parse_state \<times> frame list) option" where
  "end_array st = (case st of FArray xs # st' \<Rightarrow> deliver (JArray xs) st' | _ \<Rightarrow> None)"

definition end_object :: "frame list \<Rightarrow> (parse_state \<times> frame list) option" where
  "end_object st = (case st of FObject ms # st' \<Rightarrow> deliver (JObject ms) st' | _ \<Rightarrow> None)"

fun parse_step :: "parse_state \<Rightarrow> frame list \<Rightarrow> token \<Rightarrow> (parse_state \<times> frame list) option" where
  "parse_step PValue st t = begin_value t st"
| "parse_step PArrayStart st t = (if t = TRBracket then end_array st else begin_value t st)"
| "parse_step PObjectStart st t = (if t = TRBrace then end_object st else begin_key t st)"
| "parse_step PKey st t = begin_key t st"
| "parse_step PColon st t = (if t = TColon then Some (PValue, st) else None)"
| "parse_step PAfter st t =
     (if t = TComma then
        (case st of
           FArray xs # st' \<Rightarrow> Some (PValue, st)
         | FObject ms # st' \<Rightarrow> Some (PKey, st)
         | _ \<Rightarrow> None)
      else if t = TRBracket then end_array st
      else if t = TRBrace then end_object st
      else None)"
| "parse_step (PDone v) st t = None"

fun parse_tokens :: "parse_state \<Rightarrow> frame list \<Rightarrow> token list \<Rightarrow> json option" where
  "parse_tokens ps st [] = (case ps of PDone v \<Rightarrow> Some v | _ \<Rightarrow> None)"
| "parse_tokens ps st (t # ts) =
     (case parse_step ps st t of
        None \<Rightarrow> None
      | Some (ps', st') \<Rightarrow> parse_tokens ps' st' ts)"

subsection \<open>Numbers\<close>

text \<open>
  A number that is stored in an \<^verbatim>\<open>interface{}\<close> goes through
  \<^verbatim>\<open>strconv.ParseFloat(s, 64)\<close>, and the decoder reports an error when that reports one:
  the literal rounds to an infinity, which it does from \<open>2^1024 - 2^970\<close> on (half a unit
  in the last place above the largest float64). The test is made on the exact value of the
  literal, digits times a power of ten.
\<close>

definition digits_value :: "string \<Rightarrow> int" where
  "digits_value ds = foldl (\<lambda>r d. r * 10 + (int (byte d) - 0x30)) 0 ds"

definition float64_overflows :: "string \<Rightarrow> bool" where
  "float64_overflows s =
     (let s1 = (if s \<noteq> [] \<and> hd s = CHR ''-'' then tl s else s);
          ip = takeWhile isDigit s1;
          s2 = dropWhile isDigit s1;
          s3 = (if s2 \<noteq> [] \<and> hd s2 = CHR ''.'' then tl s2 else s2);
          fp = (if s2 \<noteq> [] \<and> hd s2 = CHR ''.'' then takeWhile isDigit s3 else []);
          s4 = (if s2 \<noteq> [] \<and> hd s2 = CHR ''.'' then dropWhile isDigit s3 else s2);
          s5 = (if s4 \<noteq> [] then tl s4 else []);
          neg = (s5 \<noteq> [] \<and> hd s5 = CHR ''-'');
          ex = digits_value (if s5 \<noteq> [] \<and> (hd s5 = CHR ''-'' \<or> hd s5 = CHR ''+'') then tl s5 else s5);
          m = digits_value (ip @ fp);
          e10 = (if neg then - ex else ex) - int (length fp);
          limit = (2::int) ^ 1024 - 2 ^ 970
      in if 0 \<le> e10 then limit \<le> m * 10 ^ nat e10
         else limit * 10 ^ nat (- e10) \<le> m)"

subsection \<open>Unmarshal into a plan\<close>

text \<open>
  \<^verbatim>\<open>json.Unmarshal(data, &plan)\<close> with \<^verbatim>\<open>plan\<close> a nil
  \<^verbatim>\<open>[]map[string]interface{}\<close>. A text that is not one JSON value is a syntax error.
  Of a JSON value, \<^verbatim>\<open>null\<close> leaves the slice nil; an array gives one map for each
  element, the nil map for \<^verbatim>\<open>null\<close>; an element that is neither an object nor
  \<^verbatim>\<open>null\<close>, a value that is not an array, and a number out of range (every number
  of the text is converted, also one that a later member of the same key replaces) each
  make the call return an \<^verbatim>\<open>UnmarshalTypeError\<close>. The text of the
  library's error is not reproduced: \<open>json_error_text\<close> stands for it.
\<close>

datatype json_error = SyntaxError | UnmarshalTypeError

definition json_error_text :: "json_error \<Rightarrow> string" where
  "json_error_text e =
     (case e of
        SyntaxError \<Rightarrow> ''invalid JSON syntax''
      | UnmarshalTypeError \<Rightarrow> ''json: cannot unmarshal into Go value of type []map[string]interface {}'')"

definition number_token_ok :: "token \<Rightarrow> bool" where
  "number_token_ok t = (case t of TNumber n \<Rightarrow> \<not> float64_overflows n | _ \<Rightarrow> True)"

fun plan_elements :: "json list \<Rightarrow> gomap list option" where
  "plan_elements [] = Some []"
| "plan_elements (JNull # xs) = map_option ((#) []) (plan_elements xs)"
| "plan_elements (JObject ms # xs) = map_option ((#) ms) (plan_elements xs)"
| "plan_elements (_ # xs) = None"

definition json_Unmarshal :: "string \<Rightarrow> json_error + gomap list" where
  "json_Unmarshal data =
     (case scan Between data of
        None \<Rightarrow> Inl SyntaxError
      | Some ts \<Rightarrow>
          (case parse_tokens PValue [] ts of
             None \<Rightarrow> Inl SyntaxError
           | Some JNull \<Rightarrow> Inr []
           | Some (JArray xs) \<Rightarrow>
               (case plan_elements xs of
                  None \<Rightarrow> Inl UnmarshalTypeError
                | Some plan \<Rightarrow>
                    if list_all number_token_ok ts then Inr plan else Inl UnmarshalTypeError)
           | Some _ \<Rightarrow> Inl UnmarshalTypeError))"

text \<open>
  \<^verbatim>\<open>json.Marshal\<close> of a \<^verbatim>\<open>map[string]string\<close>. It cannot fail. A
  \<^verbatim>\<open>json.RawMessage\<close> is modelled by the value it encodes, so the result is the object
  with the members of the map.
\<close>

definition json_Marshal :: "(string \<times> string) list \<Rightarrow> string + json" where
  "json_Marshal m = Inr (JObject (map (\<lambda>(k, v). (k, JString v)) m))"

text \<open>
  A type assertion \<^verbatim>\<open>v, ok := m[key].(string)\<close>: the string and \<open>True\<close>, or the
  empty string and \<open>False\<close> when the key is missing or holds a value of another type.
\<close>

fun as_string :: "json option \<Rightarrow> string \<times> bool" where
  "as_string (Some (JString s)) = (s, True)"
| "as_string _ = ([], False)"

text \<open>\<^verbatim>\<open>m, _ := a[key].(map[string]interface{})\<close>: the map, or the nil map.\<close>

fun as_map :: "json option \<Rightarrow> gomap" where
  "as_map (Some (JObject m)) = m"
| "as_map _ = []"

section \<open>Contexts with a deadline\<close>

text \<open>
  Of a \<^verbatim>\<open>context.Context\<close> the model keeps the deadline, a point in time in
  nanoseconds, or none for \<^verbatim>\<open>context.Background()\<close>. \<^verbatim>\<open>context.WithDeadline\<close>
  gives a context whose deadline is no later than the parent's: when the parent's deadline
  is before the new one the result is the parent's context. \<^verbatim>\<open>WithTimeout(parent, t)\<close>
  is \<^verbatim>\<open>WithDeadline(parent, time.Now().Add(t))\<close>; the model takes the reading of the
  clock as an argument. The cancel functions are deferred to the return of the functions
  that create them and have no effect before it.
\<close>

record Context =
  deadline :: "nat option"

definition Second :: nat where
  "Second = 1000000000"

definition Minute :: nat where
  "Minute = 60 * Second"

definition Background :: Context where
  "Background = \<lparr>deadline = None\<rparr>"

definition WithDeadline :: "Context \<Rightarrow> nat \<Rightarrow> Context" where
  "WithDeadline parent d =
     (case deadline parent of
        Some cur \<Rightarrow> if cur < d then parent else \<lparr>deadline = Some d\<rparr>
      | None \<Rightarrow> \<lparr>deadline = Some d\<rparr>)"

definition WithTimeout :: "Context \<Rightarrow> nat \<Rightarrow> nat \<Rightarrow> Context" where
  "WithTimeout parent tnow timeout = WithDeadline parent (tnow + timeout)"

section \<open>pkg/mcp: the response envelope\<close>

record RPCError =
  Code :: int
  Message :: string

record RPCResponse =
  Version :: string
  Result :: "json option"
  Error :: "RPCError option"
  ID :: "int option"

record ToolCallArgs =
  ToolName :: string
  Parameters :: gomap

definition JSONRPCVersion :: string where
  "JSONRPCVersion = ''2.0''"

definition NewError :: "int \<Rightarrow> string \<Rightarrow> RPCError" where
  "NewError code msg = \<lparr>Code = code, Message = msg\<rparr>"

section \<open>pkg/docker: the operations on the container runtime\<close>

text \<open>
  The Docker client is the collaborator. The model gives it a state of any type \<open>'d\<close>
  (the engine and everything else outside the server, the clock included) and two
  functions: \<open>request\<close> answers one call of the client API under a context with the
  error it returns, if any, and the next state; \<open>now\<close> reads the clock. The world of
  the server is that state and the list of the requests the server has made, oldest
  first, each with the context it was made under.

  The calls are the ones \<^verbatim>\<open>pkg/docker\<close> makes; none of them reads the state of a
  container. \<open>ReadPullOutput\<close> is the reading of the stream \<^verbatim>\<open>ImagePull\<close> returns
  (\<^verbatim>\<open>io.Copy(io.Discard, out)\<close>), which can fail on its own.
\<close>

datatype docker_call =
    NetworkCreate string
  | ContainerCreate string string
  | VolumeCreate string
  | ContainerStart string
  | ImagePull string
  | ReadPullOutput string

record 'd client =
  request :: "Context \<Rightarrow> docker_call \<Rightarrow> 'd \<Rightarrow> string option \<times> 'd"
  now :: "'d \<Rightarrow> nat"

record 'd world =
  engine :: 'd
  calls :: "(Context \<times> docker_call) list"

definition docker_do :: "'d client \<Rightarrow> Context \<Rightarrow> docker_call \<Rightarrow> 'd world \<Rightarrow> string option \<times> 'd world" where
  "docker_do cli ctx c w =
     (case request cli ctx c (engine w) of
        (err, d') \<Rightarrow> (err, \<lparr>engine = d', calls = calls w @ [(ctx, c)]\<rparr>))"

definition CreateNetwork :: "Context \<Rightarrow> 'd client \<Rightarrow> string \<Rightarrow> 'd world \<Rightarrow> string option \<times> 'd world" where
  "CreateNetwork ctx cli name w =
     (if name = [] then (Some ''missing network name'', w)
      else docker_do cli ctx (NetworkCreate name) w)"

text \<open>\<open>ContainerCreate image name\<close>: the image of the config, then the container's name.\<close>

definition CreateContainer :: "Context \<Rightarrow> 'd client \<Rightarrow> string \<Rightarrow> string \<Rightarrow> 'd world \<Rightarrow> string option \<times> 'd world" where
  "CreateContainer ctx cli name img w =
     (if name = [] \<or> img = [] then (Some ''missing container name or image'', w)
      else docker_do cli ctx (ContainerCreate img name) w)"

definition CreateVolume :: "Context \<Rightarrow> 'd client \<Rightarrow> string \<Rightarrow> 'd world \<Rightarrow> string option \<times> 'd world" where
  "CreateVolume ctx cli name w =
     (if name = [] then (Some ''invalid or missing volume name'', w)
      else docker_do cli ctx (VolumeCreate name) w)"

definition RunContainer :: "Context \<Rightarrow> 'd client \<Rightarrow> string \<Rightarrow> 'd world \<Rightarrow> string option \<times> 'd world" where
  "RunContainer ctx cli name w =
     (if name = [] then (Some ''invalid container name'', w)
      else docker_do cli ctx (ContainerStart name) w)"

text \<open>The first half of \<^verbatim>\<open>PullImage\<close>: the image reference, or the error.\<close>

definition pull_reference :: "gomap \<Rightarrow> string + string" where
  "pull_reference parameters =
     (case as_string (map_of parameters ''image'') of
        (img, ok) \<Rightarrow>
          if \<not> ok \<or> img = [] then
            (case (as_string (map_of parameters ''name''), as_string (map_of parameters ''tag'')) of
               ((name, nameOk), (tag, tagOk)) \<Rightarrow>
                 if \<not> nameOk \<or> name = [] then Inl ''missing image name for pull_image''
                 else Inr (name @ '':'' @ (if \<not> tagOk \<or> tag = [] then ''latest'' else tag)))
          else Inr img)"

definition PullImage :: "Context \<Rightarrow> 'd client \<Rightarrow> gomap \<Rightarrow> 'd world \<Rightarrow> string option \<times> 'd world" where
  "PullImage ctx cli parameters w =
     (case pull_reference parameters of
        Inl e \<Rightarrow> (Some e, w)
      | Inr img \<Rightarrow>
          (let pullCtx = WithTimeout ctx (now cli (engine w)) (2 * Minute) in
           case docker_do cli pullCtx (ImagePull img) w of
             (Some err, w') \<Rightarrow> (Some err, w')
           | (None, w') \<Rightarrow> docker_do cli pullCtx (ReadPullOutput img) w'))"

section \<open>The server: registry, plan execution, direct tool calls\<close>

text \<open>
  A \<^verbatim>\<open>ToolHandler\<close> takes the context, the server and the parameters and returns an
  error or nil. The handlers read one field of the server, \<^verbatim>\<open>dockerClient\<close>, so the
  model hands them the client; what they do to the world outside is the world they
  return. The LLM client of the server has no part in executing a plan and is left out.
\<close>

type_synonym 'd ToolHandler =
  "Context \<Rightarrow> 'd client \<Rightarrow> gomap \<Rightarrow> 'd world \<Rightarrow> string option \<times> 'd world"

record 'd RegisteredTool =
  Name :: string
  Description :: string
  InputSchema :: gomap
  Handler :: "'d ToolHandler"

record 'd Server =
  dockerClient :: "'d client"
  tools :: "string \<rightharpoonup> 'd RegisteredTool"

definition RegisterTool ::
  "string \<Rightarrow> string \<Rightarrow> gomap \<Rightarrow> 'd ToolHandler \<Rightarrow> 'd Server \<Rightarrow> 'd Server" where
  "RegisterTool name description inputSchema handler s =
     s\<lparr>tools := (tools s)(name \<mapsto>
        \<lparr>Name = name, Description = description, InputSchema = inputSchema, Handler = handler\<rparr>)\<rparr>"

subsection \<open>The tools NewServer registers\<close>

definition create_network_handler :: "'d ToolHandler" where
  "create_network_handler ctx cli params w =
     (case as_string (map_of params ''name'') of
        (name, _) \<Rightarrow> CreateNetwork ctx cli name w)"

definition create_container_handler :: "'d ToolHandler" where
  "create_container_handler ctx cli params w =
     (case (as_string (map_of params ''name''), as_string (map_of params ''image'')) of
        ((name, _), (img, _)) \<Rightarrow>
          if name = [] \<or> img = [] then (Some ''missing container name or image'', w)
          else CreateContainer ctx cli name img w)"

definition create_volume_handler :: "'d ToolHandler" where
  "create_volume_handler ctx cli params w =
     (case as_string (map_of params ''name'') of
        (name, _) \<Rightarrow> CreateVolume ctx cli name w)"

definition run_container_handler :: "'d ToolHandler" where
  "run_container_handler ctx cli params w =
     (case as_string (map_of params ''name'') of
        (name, _) \<Rightarrow> RunContainer ctx cli name w)"

definition pull_image_handler :: "'d ToolHandler" where
  "pull_image_handler ctx cli params w = PullImage ctx cli params w"

definition string_property :: "string \<Rightarrow> json" where
  "string_property description =
     JObject [(''type'', JString ''string''), (''description'', JString description)]"

definition name_schema :: "string \<Rightarrow> gomap" where
  "name_schema description =
     [(''type'', JString ''object''),
      (''properties'', JObject [(''name'', string_property description)]),
      (''required'', JArray [JString ''name''])]"

definition create_container_schema :: gomap where
  "create_container_schema =
     [(''type'', JString ''object''),
      (''properties'', JObject
         [(''name'', string_property ''Name of the container''),
          (''image'', string_property ''Docker image to use'')]),
      (''required'', JArray [JString ''name'', JString ''image''])]"

definition pull_image_schema :: gomap where
  "pull_image_schema =
     [(''type'', JString ''object''),
      (''properties'', JObject
         [(''image'', string_property ''Combined image name (e.g. mysql:latest)''),
          (''name'', string_property ''Image name''),
          (''tag'', string_property ''Image tag'')]),
      (''required'', JArray [JString ''image''])]"

text \<open>
  \<^verbatim>\<open>NewServer\<close>, once the Docker client and the LLM client have been created: the
  empty registry, then the five registrations in the order of the source.
\<close>

definition NewServer :: "'d client \<Rightarrow> 'd Server" where
  "NewServer dc =
     RegisterTool ''pull_image'' ''Pull a Docker image'' pull_image_schema pull_image_handler
      (RegisterTool ''run_container'' ''Run (start) a Docker container''
         (name_schema ''Name of the container'') run_container_handler
      (RegisterTool ''create_volume'' ''Create a Docker volume''
         (name_schema ''Name of the volume'') create_volume_handler
      (RegisterTool ''create_container'' ''Create a Docker container''
         create_container_schema create_container_handler
      (RegisterTool ''create_network'' ''Create a Docker network''
         (name_schema ''Name of the network'') create_network_handler
      \<lparr>dockerClient = dc, tools = Map.empty\<rparr>))))"

subsection \<open>ExecutePlan\<close>

text \<open>
  Beside the reply and the world, the model returns the handler invocations the call
  made, in the order it made them: the tool's name, the context and the parameters the
  handler was called with, and the error it returned.
\<close>

datatype invocation =
  Invocation (inv_tool: string) (inv_ctx: Context) (inv_params: gomap) (inv_outcome: "string option")

text \<open>
  The loop over the actions of the plan. The result is the error that ends the loop
  early, if any, the world, and the invocations.
\<close>

fun run_actions ::
  "'d Server \<Rightarrow> Context \<Rightarrow> gomap list \<Rightarrow> 'd world \<Rightarrow> RPCError option \<times> 'd world \<times> invocation list" where
  "run_actions s ctx [] w = (None, w, [])"
| "run_actions s ctx (action # rest) w =
     (case as_string (map_of action ''action'') of
        (actionType, ok) \<Rightarrow>
          if \<not> ok \<or> actionType = [] then
            (Some (NewError (- 32602) ''invalid action format''), w, [])
          else
            (let parameters = as_map (map_of action ''parameters'') in
             case tools s actionType of
               Some tool \<Rightarrow>
                 (case Handler tool ctx (dockerClient s) parameters w of
                    (Some err, w') \<Rightarrow>
                      (Some (NewError (- 32000) (''failed to execute tool '' @ actionType @ '': '' @ err)),
                       w', [Invocation actionType ctx parameters (Some err)])
                  | (None, w') \<Rightarrow>
                      (case run_actions s ctx rest w' of
                         (e, w'', invs) \<Rightarrow>
                           (e, w'', Invocation actionType ctx parameters None # invs)))
             | None \<Rightarrow>
                 (Some (NewError (- 32601) (''unknown action: '' @ actionType)), w, [])))"

definition new_response :: RPCResponse where
  "new_response = \<lparr>Version = JSONRPCVersion, Result = None, Error = None, ID = None\<rparr>"

text \<open>
  \<open>args\<close> is \<open>None\<close> for a nil pointer. The clock is read once, by the
  \<^verbatim>\<open>WithTimeout\<close> before the loop.
\<close>

definition ExecutePlan ::
  "'d Server \<Rightarrow> string option \<Rightarrow> 'd world \<Rightarrow> RPCResponse \<times> 'd world \<times> invocation list" where
  "ExecutePlan s args w =
     (case args of
        None \<Rightarrow>
          (new_response\<lparr>Error := Some (NewError (- 32602) ''ExecutePlan received empty plan'')\<rparr>, w, [])
      | Some text \<Rightarrow>
          if text = [] then
            (new_response\<lparr>Error := Some (NewError (- 32602) ''ExecutePlan received empty plan'')\<rparr>, w, [])
          else
            (case json_Unmarshal text of
               Inl err \<Rightarrow>
                 (new_response\<lparr>Error :=
                    Some (NewError (- 32700) (''failed to parse plan JSON: '' @ json_error_text err))\<rparr>, w, [])
             | Inr plan \<Rightarrow>
                 if length plan = 0 then
                   (new_response\<lparr>Error := Some (NewError (- 32602) ''received empty plan from LLM'')\<rparr>, w, [])
                 else
                   (let ctx = WithTimeout Background (now (dockerClient s) (engine w)) (30 * Second) in
                    case run_actions s ctx plan w of
                      (Some e, w', invs) \<Rightarrow> (new_response\<lparr>Error := Some e\<rparr>, w', invs)
                    | (None, w', invs) \<Rightarrow>
                        (case json_Marshal
                                [(''status'', ''success''), (''message'', ''Plan executed successfully'')] of
                           Inl err \<Rightarrow>
                             (new_response\<lparr>Error :=
                                Some (NewError (- 32000) (''failed to marshal result: '' @ err))\<rparr>, w', invs)
                         | Inr result \<Rightarrow> (new_response\<lparr>Result := Some result\<rparr>, w', invs)))))"

subsection \<open>CallTool\<close>

text \<open>
  \<^verbatim>\<open>args\<close> is never nil when net/rpc makes the call (it allocates the argument), and a
  nil pointer would panic on the first line, before any effect; the model takes the
  struct.
\<close>

definition CallTool ::
  "'d Server \<Rightarrow> ToolCallArgs \<Rightarrow> 'd world \<Rightarrow> RPCResponse \<times> 'd world \<times> invocation list" where
  "CallTool s args w =
     (case tools s (ToolName args) of
        None \<Rightarrow>
          (new_response\<lparr>Error := Some (NewError (- 32601) (''unknown tool: '' @ ToolName args))\<rparr>, w, [])
      | Some tool \<Rightarrow>
          (let ctx = WithTimeout Background (now (dockerClient s) (engine w)) (30 * Second) in
           case Handler tool ctx (dockerClient s) (Parameters args) w of
             (Some err, w') \<Rightarrow>
               (new_response\<lparr>Error :=
                  Some (NewError (- 32000) (''failed to execute tool '' @ ToolName args @ '': '' @ err))\<rparr>,
                w', [Invocation (ToolName args) ctx (Parameters args) (Some err)])
           | (None, w') \<Rightarrow>
               (case json_Marshal
                       [(''status'', ''success''),
                        (''message'', ''Tool '' @ ToolName args @ '' executed successfully'')] of
                  Inl err \<Rightarrow>
                    (new_response\<lparr>Error :=
                       Some (NewError (- 32000) (''failed to marshal result: '' @ err))\<rparr>,
                     w', [Invocation (ToolName args) ctx (Parameters args) None])
                | Inr result \<Rightarrow>
                    (new_response\<lparr>Result := Some result\<rparr>,
                     w', [Invocation (ToolName args) ctx (Parameters args) None]))))"

section \<open>A small container engine\<close>

text \<open>
  A collaborator to run the server on concrete plans. It keeps a clock, the containers
  that exist and those that run. A request takes one second, the pull of an image forty;
  a request that cannot finish before the deadline of its context fails with the
  context's error at the deadline. A container is created once and started only if it
  exists; starting a running container succeeds and changes nothing else.
\<close>

record sim =
  sim_clock :: nat
  sim_containers :: "string list"
  sim_running :: "string list"

definition sim_cost :: "docker_call \<Rightarrow> nat" where
  "sim_cost c = (case c of ImagePull r \<Rightarrow> 40 * Second | _ \<Rightarrow> Second)"

definition sim_request :: "Context \<Rightarrow> docker_call \<Rightarrow> sim \<Rightarrow> string option \<times> sim" where
  "sim_request ctx c d =
     (case (case deadline ctx of
              Some t \<Rightarrow> if t < sim_clock d + sim_cost c then Some t else None
            | None \<Rightarrow> None) of
        Some t \<Rightarrow> (Some ''context deadline exceeded'', d\<lparr>sim_clock := max t (sim_clock d)\<rparr>)
      | None \<Rightarrow>
          (let d' = d\<lparr>sim_clock := sim_clock d + sim_cost c\<rparr> in
           case c of
             ContainerCreate img name \<Rightarrow>
               if name \<in> set (sim_containers d)
               then (Some (''Conflict. The container name '' @ name @ '' is already in use''), d')
               else (None, d'\<lparr>sim_containers := name # sim_containers d\<rparr>)
           | ContainerStart name \<Rightarrow>
               if name \<in> set (sim_containers d)
               then (None, d'\<lparr>sim_running := List.insert name (sim_running d)\<rparr>)
               else (Some (''No such container: '' @ name), d')
           | _ \<Rightarrow> (None, d')))"

definition sim_client :: "sim client" where
  "sim_client = \<lparr>request = sim_request, now = sim_clock\<rparr>"

definition sim_world :: "nat \<Rightarrow> string list \<Rightarrow> string list \<Rightarrow> sim world" where
  "sim_world t cs rs =
     \<lparr>engine = \<lparr>sim_clock = t, sim_containers = cs, sim_running = rs\<rparr>, calls = []\<rparr>"

section \<open>Notions the properties are stated with\<close>

text \<open>The call an invocation made: the tool and the parameters.\<close>

definition inv_call :: "invocation \<Rightarrow> string \<times> gomap" where
  "inv_call i = (inv_tool i, inv_params i)"

text \<open>
  The calls a plan asks for, in its order: for each action the name under \<^verbatim>\<open>"action"\<close>
  and the parameter bag the loop extracts.
\<close>

definition planned :: "gomap list \<Rightarrow> (string \<times> gomap) list" where
  "planned plan =
     map (\<lambda>action. (fst (as_string (map_of action ''action'')), as_map (map_of action ''parameters''))) plan"

text \<open>An action the loop can dispatch: a non-empty string name with an entry in the registry.\<close>

definition resolvable :: "'d Server \<Rightarrow> gomap \<Rightarrow> bool" where
  "resolvable s action =
     (case as_string (map_of action ''action'') of
        (actionType, ok) \<Rightarrow> ok \<and> actionType \<noteq> [] \<and> tools s actionType \<noteq> None)"

text \<open>The fixed payload of a plan that ran to its end.\<close>

definition plan_success :: json where
  "plan_success =
     JObject [(''status'', JString ''success''), (''message'', JString ''Plan executed successfully'')]"

text \<open>An envelope with an error and no result.\<close>

definition error_reply :: "int \<Rightarrow> string \<Rightarrow> RPCResponse" where
  "error_reply code msg =
     \<lparr>Version = ''2.0'', Result = None, Error = Some \<lparr>Code = code, Message = msg\<rparr>, ID = None\<rparr>"

text \<open>Exactly one of result and error is there.\<close>

definition exactly_one_populated :: "RPCResponse \<Rightarrow> bool" where
  "exactly_one_populated r \<longleftrightarrow> (Result r = None) \<noteq> (Error r = None)"

text \<open>
  The requests a handler added to the world it was given, and the first of them.
\<close>

definition requests_since :: "'d world \<Rightarrow> 'd world \<Rightarrow> (Context \<times> docker_call) list" where
  "requests_since w w' = drop (length (calls w)) (calls w')"

definition first_request :: "'d world \<Rightarrow> 'd world \<Rightarrow> docker_call option" where
  "first_request w w' = (case requests_since w w' of [] \<Rightarrow> None | (c, r) # _ \<Rightarrow> Some r)"

text \<open>A parameter a handler can use as a name: a string that is not empty.\<close>

definition usable :: "gomap \<Rightarrow> string \<Rightarrow> bool" where
  "usable params key \<longleftrightarrow> snd (as_string (map_of params key)) \<and> fst (as_string (map_of params key)) \<noteq> []"

fun is_object :: "json \<Rightarrow> bool" where
  "is_object (JObject m) = True"
| "is_object _ = False"

text \<open>The payload of a direct tool call that succeeded.\<close>

definition tool_success :: "string \<Rightarrow> json" where
  "tool_success name =
     JObject [(''status'', JString ''success''),
              (''message'', JString (''Tool '' @ name @ '' executed successfully''))]"

text \<open>The context \<open>ExecutePlan\<close> derives for a plan: thirty seconds from the client's clock.\<close>

definition plan_context :: "'d Server \<Rightarrow> 'd world \<Rightarrow> Context" where
  "plan_context s w = WithTimeout Background (now (dockerClient s) (engine w)) (30 * Second)"

text \<open>
  The success path of the loop: every action resolves to a registered tool and every
  handler, run in the world its predecessor left, returns no error.
\<close>

fun every_action_succeeds :: "'d Server \<Rightarrow> Context \<Rightarrow> gomap list \<Rightarrow> 'd world \<Rightarrow> bool" where
  "every_action_succeeds s ctx [] w = True"
| "every_action_succeeds s ctx (action # rest) w =
     (resolvable s action \<and>
      (case tools s (fst (as_string (map_of action ''action''))) of
         None \<Rightarrow> False
       | Some tool \<Rightarrow>
           (case Handler tool ctx (dockerClient s) (as_map (map_of action ''parameters'')) w of
              (None, w') \<Rightarrow> every_action_succeeds s ctx rest w'
            | (Some err, w') \<Rightarrow> False)))"

text \<open>
  The success path of \<open>ExecutePlan\<close>: the argument is there, decodes to a plan that is
  not empty, and every action of the plan succeeds. Every other path is an error path.
\<close>

definition plan_succeeds :: "'d Server \<Rightarrow> string option \<Rightarrow> 'd world \<Rightarrow> bool" where
  "plan_succeeds s args w =
     (case args of
        None \<Rightarrow> False
      | Some input \<Rightarrow>
          (case json_Unmarshal input of
             Inl e \<Rightarrow> False
           | Inr plan \<Rightarrow>
               plan \<noteq> [] \<and>
               every_action_succeeds s
                 (WithTimeout Background (now (dockerClient s) (engine w)) (30 * Second)) plan w))"

text \<open>
  The success path of \<open>CallTool\<close>: the tool is registered and its handler returns no
  error. Every other path is an error path.
\<close>

definition tool_succeeds :: "'d Server \<Rightarrow> ToolCallArgs \<Rightarrow> 'd world \<Rightarrow> bool" where
  "tool_succeeds s call w =
     (case tools s (ToolName call) of
        None \<Rightarrow> False
      | Some tool \<Rightarrow>
          fst (Handler tool (WithTimeout Background (now (dockerClient s) (engine w)) (30 * Second))
                 (dockerClient s) (Parameters call) w) = None)"

text \<open>The codes the two methods give to \<open>NewError\<close>.\<close>

definition error_codes :: "int set" where
  "error_codes = {- 32700, - 32602, - 32601, - 32000}"

section \<open>Concrete plans\<close>

text \<open>
  The three-action plan of the specification's scenario, the plan it decodes to, and
  the context of a plan that starts when the engine's clock reads 0.
\<close>

definition scenario_text :: string where
  \<open>scenario_text = ''[{"action":"create_network","parameters":{"name":"net1"}}, {"action":"create_container","parameters":{"name":"c1","image":"nginx:latest"}}, {"action":"run_container","parameters":{"name":"c1"}}]''\<close>

definition scenario_plan :: "gomap list" where
  "scenario_plan =
     [[(''action'', JString ''create_network''), (''parameters'', JObject [(''name'', JString ''net1'')])],
      [(''action'', JString ''create_container''),
       (''parameters'', JObject [(''name'', JString ''c1''), (''image'', JString ''nginx:latest'')])],
      [(''action'', JString ''run_container''), (''parameters'', JObject [(''name'', JString ''c1'')])]]"

definition plan_ctx :: Context where
  "plan_ctx = \<lparr>deadline = Some (30 * Second)\<rparr>"

text \<open>What the scenario gives on an empty engine, and on one where \<open>c1\<close> exists already.\<close>

definition scenario_invocations :: "invocation list" where
  "scenario_invocations =
     [Invocation ''create_network'' plan_ctx [(''name'', JString ''net1'')] None,
      Invocation ''create_container'' plan_ctx
        [(''name'', JString ''c1''), (''image'', JString ''nginx:latest'')] None,
      Invocation ''run_container'' plan_ctx [(''name'', JString ''c1'')] None]"

definition scenario_world :: "sim world" where
  "scenario_world =
     \<lparr>engine = \<lparr>sim_clock = 3 * Second, sim_containers = [''c1''], sim_running = [''c1'']\<rparr>,
      calls = [(plan_ctx, NetworkCreate ''net1''), (plan_ctx, ContainerCreate ''nginx:latest'' ''c1''),
               (plan_ctx, ContainerStart ''c1'')]\<rparr>"

definition conflict_message :: string where
  "conflict_message = ''Conflict. The container name c1 is already in use''"

definition conflict_reply :: RPCResponse where
  "conflict_reply =
     new_response\<lparr>Error := Some \<lparr>Code = - 32000,
        Message = ''failed to execute tool create_container: '' @ conflict_message\<rparr>\<rparr>"

definition conflict_invocations :: "invocation list" where
  "conflict_invocations =
     [Invocation ''create_network'' plan_ctx [(''name'', JString ''net1'')] None,
      Invocation ''create_container'' plan_ctx
        [(''name'', JString ''c1''), (''image'', JString ''nginx:latest'')] (Some conflict_message)]"

definition conflict_world :: "sim world" where
  "conflict_world =
     \<lparr>engine = \<lparr>sim_clock = 2 * Second, sim_containers = [''c1''], sim_running = []\<rparr>,
      calls = [(plan_ctx, NetworkCreate ''net1''), (plan_ctx, ContainerCreate ''nginx:latest'' ''c1'')]\<rparr>"

text \<open>A parameter bag for create_container whose volumes hold a number.\<close>

definition bad_volumes_params :: gomap where
  "bad_volumes_params =
     [(''name'', JString ''c1''), (''image'', JString ''nginx''), (''volumes'', JArray [JNumber ''123''])]"

text \<open>A plan whose only action has the empty name, and one whose second action has no tool.\<close>

definition empty_name_text :: string where
  \<open>empty_name_text = ''[{"action":""}]''\<close>

definition ghost_text :: string where
  \<open>ghost_text = ''[{"action":"create_network","parameters":{"name":"net1"}}, {"action":"ghost"}]''\<close>

definition ghost_plan :: "gomap list" where
  "ghost_plan =
     [[(''action'', JString ''create_network''), (''parameters'', JObject [(''name'', JString ''net1'')])],
      [(''action'', JString ''ghost'')]]"

text \<open>A plan that pulls an image by name, with no tag.\<close>

definition pull_text :: string where
  \<open>pull_text = ''[{"action":"pull_image","parameters":{"name":"redis"}}]''\<close>

definition pull_plan :: "gomap list" where
  "pull_plan = [[(''action'', JString ''pull_image''), (''parameters'', JObject [(''name'', JString ''redis'')])]]"

text \<open>A direct call that creates a network, and the same call without the name.\<close>

definition make_net :: ToolCallArgs where
  "make_net = \<lparr>ToolName = ''create_network'', Parameters = [(''name'', JString ''net1'')]\<rparr>"

definition make_net_unnamed :: ToolCallArgs where
  "make_net_unnamed = \<lparr>ToolName = ''create_network'', Parameters = []\<rparr>"

text \<open>
  A plan of three actions whose second has an array under \<^verbatim>\<open>"parameters"\<close>, the same
  plan with the key removed from that action, the three actions the first decodes to,
  the world the first action leaves and the message of \<open>CreateVolume\<close> for a missing name.
\<close>

definition mixed_text :: string where
  \<open>mixed_text = ''[{"action":"create_network","parameters":{"name":"net1"}}, {"action":"create_volume","parameters":["vol1"]}, {"action":"run_container","parameters":{"name":"c1"}}]''\<close>

definition mixed_text_absent :: string where
  \<open>mixed_text_absent = ''[{"action":"create_network","parameters":{"name":"net1"}}, {"action":"create_volume"}, {"action":"run_container","parameters":{"name":"c1"}}]''\<close>

definition net_action :: gomap where
  "net_action = [(''action'', JString ''create_network''), (''parameters'', JObject [(''name'', JString ''net1'')])]"

definition volume_action :: gomap where
  "volume_action = [(''action'', JString ''create_volume''), (''parameters'', JArray [JString ''vol1''])]"

definition run_action :: gomap where
  "run_action = [(''action'', JString ''run_container''), (''parameters'', JObject [(''name'', JString ''c1'')])]"

definition net_done_world :: "sim world" where
  "net_done_world =
     \<lparr>engine = \<lparr>sim_clock = Second, sim_containers = [], sim_running = []\<rparr>,
      calls = [(plan_ctx, NetworkCreate ''net1'')]\<rparr>"

definition volume_message :: string where
  "volume_message = ''invalid or missing volume name''"

section \<open>Evaluation\<close>

named_theorems json_eval
named_theorems server_eval

lemmas json_defs [json_eval] =
  json_Unmarshal_def scan_between_def scan_end_number_def scan_after_int_def
  isSpace_def isDigit_def isHex_def byte_def begin_value_def begin_key_def end_array_def
  end_object_def maxNestingDepth_def number_token_ok_def

lemmas server_defs [server_eval] =
  CallTool_def NewServer_def RegisterTool_def new_response_def
  NewError_def JSONRPCVersion_def json_Marshal_def json_error_text_def
  create_network_handler_def create_container_handler_def create_volume_handler_def
  run_container_handler_def pull_image_handler_def
  CreateNetwork_def CreateContainer_def CreateVolume_def RunContainer_def PullImage_def
  pull_reference_def docker_do_def WithTimeout_def WithDeadline_def Background_def
  Second_def Minute_def sim_client_def sim_request_def sim_cost_def sim_world_def

lemma json_Unmarshal_Nil: "json_Unmarshal [] = Inl SyntaxError"
  by (simp add: json_Unmarshal_def)

lemma scenario_unmarshal: "json_Unmarshal scenario_text = Inr scenario_plan"
  by (simp add: scenario_text_def scenario_plan_def json_eval)

lemma scenario_text_nonempty: "scenario_text \<noteq> []"
  by (simp add: scenario_text_def)

lemma scenario_plan_nonempty: "scenario_plan \<noteq> []"
  by (simp add: scenario_plan_def)

lemma scenario_resolvable: "list_all (resolvable (NewServer sim_client)) scenario_plan"
  by (simp add: scenario_plan_def resolvable_def NewServer_def RegisterTool_def)

lemma scenario_run:
  "ExecutePlan (NewServer sim_client) (Some scenario_text) (sim_world 0 [] []) =
     (new_response\<lparr>Result := Some plan_success\<rparr>, scenario_world, scenario_invocations)"
  unfolding ExecutePlan_def
  by (simp add: scenario_unmarshal scenario_text_nonempty)
     (simp add: scenario_plan_def plan_ctx_def plan_success_def scenario_world_def
        scenario_invocations_def server_eval)

lemma conflict_run:
  "ExecutePlan (NewServer sim_client) (Some scenario_text) (sim_world 0 [''c1''] []) =
     (conflict_reply, conflict_world, conflict_invocations)"
  unfolding ExecutePlan_def
  by (simp add: scenario_unmarshal scenario_text_nonempty)
     (simp add: scenario_plan_def plan_ctx_def conflict_reply_def conflict_world_def
        conflict_message_def conflict_invocations_def server_eval)

lemma empty_array_unmarshal: \<open>json_Unmarshal ''[]'' = Inr []\<close>
  by (simp add: json_eval)

lemma not_json_unmarshal: \<open>json_Unmarshal ''{not json'' = Inl SyntaxError\<close>
  by (simp add: json_eval)

lemma ghost_unmarshal: "json_Unmarshal ghost_text = Inr ghost_plan"
  by (simp add: ghost_text_def ghost_plan_def json_eval)

lemma ghost_before:
  "run_actions (NewServer sim_client) (WithTimeout Background (now (dockerClient (NewServer sim_client)) (engine (sim_world 0 [] []))) (30 * Second))
     [[(''action'', JString ''create_network''), (''parameters'', JObject [(''name'', JString ''net1'')])]]
     (sim_world 0 [] []) =
   (None, \<lparr>engine = \<lparr>sim_clock = Second, sim_containers = [], sim_running = []\<rparr>,
           calls = [(plan_ctx, NetworkCreate ''net1'')]\<rparr>,
    [Invocation ''create_network'' plan_ctx [(''name'', JString ''net1'')] None])"
  by (simp add: plan_ctx_def server_eval)

lemma empty_name_unmarshal: "json_Unmarshal empty_name_text = Inr [[(''action'', JString [])]]"
  by (simp add: empty_name_text_def json_eval)

lemma pull_unmarshal: "json_Unmarshal pull_text = Inr pull_plan"
  by (simp add: pull_text_def pull_plan_def json_eval)

lemma run_container_eval:
  "run_container_handler plan_ctx sim_client [(''name'', JString ''c1'')] (sim_world 0 [''c1''] []) =
     (None, \<lparr>engine = \<lparr>sim_clock = Second, sim_containers = [''c1''], sim_running = [''c1'']\<rparr>,
             calls = [(plan_ctx, ContainerStart ''c1'')]\<rparr>)"
  by (simp add: run_container_handler_def RunContainer_def docker_do_def sim_client_def sim_request_def
      sim_world_def plan_ctx_def sim_cost_def Second_def)

section \<open>The loop over the actions\<close>

text \<open>The four ways one round of the loop can go.\<close>

lemma run_actions_Cons_cases:
  assumes "run_actions s ctx (action # rest) w = (e, w', invs)"
  obtains
    (invalid) "\<not> (snd (as_string (map_of action ''action'')) \<and> fst (as_string (map_of action ''action'')) \<noteq> [])"
      "e = Some (NewError (- 32602) ''invalid action format'')" "w' = w" "invs = []"
  | (unknown) name where "as_string (map_of action ''action'') = (name, True)" "name \<noteq> []"
      "tools s name = None" "e = Some (NewError (- 32601) (''unknown action: '' @ name))"
      "w' = w" "invs = []"
  | (failed) name tool err where "as_string (map_of action ''action'') = (name, True)" "name \<noteq> []"
      "tools s name = Some tool"
      "Handler tool ctx (dockerClient s) (as_map (map_of action ''parameters'')) w = (Some err, w')"
      "e = Some (NewError (- 32000) (''failed to execute tool '' @ name @ '': '' @ err))"
      "invs = [Invocation name ctx (as_map (map_of action ''parameters'')) (Some err)]"
  | (continued) name tool w1 invs' where "as_string (map_of action ''action'') = (name, True)" "name \<noteq> []"
      "tools s name = Some tool"
      "Handler tool ctx (dockerClient s) (as_map (map_of action ''parameters'')) w = (None, w1)"
      "run_actions s ctx rest w1 = (e, w', invs')"
      "invs = Invocation name ctx (as_map (map_of action ''parameters'')) None # invs'"
proof -
  obtain actionType ok where a: "as_string (map_of action ''action'') = (actionType, ok)"
    by (cases "as_string (map_of action ''action'')")
  show thesis
  proof (cases "\<not> ok \<or> actionType = []")
    case True
    with assms a show thesis by (intro invalid) auto
  next
    case False
    then have wf: "ok" "actionType \<noteq> []" by auto
    show thesis
    proof (cases "tools s actionType")
      case None
      with assms a wf show thesis by (intro unknown[of actionType]) auto
    next
      case (Some tool)
      obtain r w1 where h: "Handler tool ctx (dockerClient s) (as_map (map_of action ''parameters'')) w = (r, w1)"
        by (cases "Handler tool ctx (dockerClient s) (as_map (map_of action ''parameters'')) w")
      show thesis
      proof (cases r)
        case (Some herr)
        with assms a wf \<open>tools s actionType = Some tool\<close> h show thesis
          by (intro failed[of actionType tool herr]) auto
      next
        case None
        obtain e2 w2 invs2 where r2: "run_actions s ctx rest w1 = (e2, w2, invs2)"
          by (cases "run_actions s ctx rest w1") auto
        with assms a wf \<open>tools s actionType = Some tool\<close> h None show thesis
          by (intro continued[of actionType tool w1 invs2]) auto
      qed
    qed
  qed
qed

lemma run_actions_trace:
  "run_actions s ctx plan w = (e, w', invs) \<Longrightarrow>
     length invs \<le> length plan \<and> map inv_call invs = take (length invs) (planned plan)"
proof (induction plan arbitrary: w e w' invs)
  case Nil
  then show ?case by simp
next
  case (Cons action rest)
  from Cons.prems show ?case
  proof (cases rule: run_actions_Cons_cases)
    case (continued name tool w1 invs')
    with Cons.IH[OF continued(5)] show ?thesis
      by (simp add: planned_def inv_call_def)
  qed (simp_all add: planned_def inv_call_def)
qed

lemma run_actions_ctx:
  "run_actions s ctx plan w = (e, w', invs) \<Longrightarrow> i \<in> set invs \<Longrightarrow> inv_ctx i = ctx"
proof (induction plan arbitrary: w e w' invs)
  case Nil
  then show ?case by simp
next
  case (Cons action rest)
  from Cons.prems(1) show ?case
  proof (cases rule: run_actions_Cons_cases)
    case (continued name tool w1 invs')
    with Cons.IH[OF continued(5)] Cons.prems(2) show ?thesis by auto
  qed (use Cons.prems(2) in auto)
qed

lemma run_actions_registered:
  "run_actions s ctx plan w = (e, w', invs) \<Longrightarrow> i \<in> set invs \<Longrightarrow> tools s (inv_tool i) \<noteq> None"
proof (induction plan arbitrary: w e w' invs)
  case Nil
  then show ?case by simp
next
  case (Cons action rest)
  from Cons.prems(1) show ?case
  proof (cases rule: run_actions_Cons_cases)
    case (continued name tool w1 invs')
    with Cons.IH[OF continued(5)] Cons.prems(2) show ?thesis by auto
  qed (use Cons.prems(2) in auto)
qed

lemma run_actions_failure:
  "run_actions s ctx plan w = (e, w', invs) \<Longrightarrow> k < length invs \<Longrightarrow>
   inv_outcome (invs ! k) = Some err \<Longrightarrow>
     (\<forall>j<k. inv_outcome (invs ! j) = None) \<and> length invs = Suc k
     \<and> e = Some (NewError (- 32000) (''failed to execute tool '' @ inv_tool (invs ! k) @ '': '' @ err))"
proof (induction plan arbitrary: w e w' invs k)
  case Nil
  then show ?case by simp
next
  case (Cons action rest)
  from Cons.prems(1) show ?case
  proof (cases rule: run_actions_Cons_cases)
    case (continued name tool w1 invs')
    show ?thesis
    proof (cases k)
      case 0
      with Cons.prems continued show ?thesis by simp
    next
      case (Suc k')
      with Cons.prems continued have "k' < length invs'" "inv_outcome (invs' ! k') = Some err" by auto
      from Cons.IH[OF continued(5) this] continued(6) Suc show ?thesis
        by (auto simp: less_Suc_eq_0_disj)
    qed
  qed (use Cons.prems in auto)
qed

lemma run_actions_success:
  "run_actions s ctx plan w = (e, w', invs) \<Longrightarrow> \<forall>a\<in>set plan. resolvable s a \<Longrightarrow>
   \<forall>i\<in>set invs. inv_outcome i = None \<Longrightarrow> e = None \<and> length invs = length plan"
proof (induction plan arbitrary: w e w' invs)
  case Nil
  then show ?case by simp
next
  case (Cons action rest)
  from Cons.prems(1) show ?case
  proof (cases rule: run_actions_Cons_cases)
    case (continued name tool w1 invs')
    with Cons.IH[OF continued(5)] Cons.prems(2,3) show ?thesis by auto
  qed (use Cons.prems(2,3) in \<open>auto simp: resolvable_def\<close>)
qed

lemma run_actions_append:
  "run_actions s ctx (xs @ ys) w =
     (case run_actions s ctx xs w of
        (Some e, w1, invs1) \<Rightarrow> (Some e, w1, invs1)
      | (None, w1, invs1) \<Rightarrow>
          (case run_actions s ctx ys w1 of (e, w2, invs2) \<Rightarrow> (e, w2, invs1 @ invs2)))"
proof (induction xs arbitrary: w)
  case Nil
  then show ?case by (simp split: prod.splits)
next
  case (Cons action rest)
  show ?case
    by (simp add: Cons.IH Let_def split: prod.splits option.splits)
qed

lemma run_actions_middle_cong:
  assumes "\<And>w1. run_actions s ctx (a # after) w1 = run_actions s ctx (b # after) w1"
  shows "run_actions s ctx (before @ a # after) w = run_actions s ctx (before @ b # after) w"
  by (simp only: run_actions_append assms cong: prod.case_cong option.case_cong)

lemma as_map_not_object: "\<not> is_object v \<Longrightarrow> as_map (Some v) = []"
  by (cases v) simp_all

lemma run_actions_non_object:
  assumes "map_of action ''parameters'' = Some v" and "\<not> is_object v"
  shows "run_actions s ctx (action # rest) w = run_actions s ctx (AList.delete ''parameters'' action # rest) w"
proof -
  have a: "map_of (AList.delete ''parameters'' action) ''action'' = map_of action ''action''"
    by simp
  have b: "as_map (map_of (AList.delete ''parameters'' action) ''parameters'') = []"
    by (simp add: AList.delete_conv')
  from assms have c: "as_map (map_of action ''parameters'') = []"
    by (simp add: as_map_not_object)
  show ?thesis by (simp add: a b c cong: prod.case_cong if_cong)
qed

text \<open>\<open>ExecutePlan\<close> on a text that decodes to a non-empty plan is the loop and its reply.\<close>

lemma ExecutePlan_runs:
  assumes "json_Unmarshal text = Inr plan" and "plan \<noteq> []"
      and "ExecutePlan s (Some text) w = (reply, w', invs)"
  shows "\<exists>e. run_actions s (WithTimeout Background (now (dockerClient s) (engine w)) (30 * Second)) plan w = (e, w', invs)
           \<and> reply = (case e of Some err \<Rightarrow> new_response\<lparr>Error := Some err\<rparr>
                               | None \<Rightarrow> new_response\<lparr>Result := Some plan_success\<rparr>)"
proof -
  from assms(1) have "text \<noteq> []" by (auto simp: json_Unmarshal_Nil)
  with assms show ?thesis
    by (auto simp: ExecutePlan_def Let_def json_Marshal_def plan_success_def split: prod.splits option.splits)
qed

lemma ExecutePlan_error:
  assumes "json_Unmarshal text = Inr plan" and "plan \<noteq> []"
      and "run_actions s (WithTimeout Background (now (dockerClient s) (engine w)) (30 * Second)) plan w
             = (Some \<lparr>Code = code, Message = msg\<rparr>, w', invs)"
  shows "ExecutePlan s (Some text) w = (error_reply code msg, w', invs)"
proof -
  from assms(1) have "text \<noteq> []" by (auto simp: json_Unmarshal_Nil)
  with assms show ?thesis
    by (simp add: ExecutePlan_def Let_def error_reply_def new_response_def JSONRPCVersion_def)
qed

lemma ExecutePlan_cong:
  assumes "json_Unmarshal text = Inr plan" and "json_Unmarshal text' = Inr plan'"
      and "plan \<noteq> []" and "plan' \<noteq> []"
      and "\<And>ctx. run_actions s ctx plan w = run_actions s ctx plan' w"
  shows "ExecutePlan s (Some text) w = ExecutePlan s (Some text') w"
proof -
  from assms(1,2) have "text \<noteq> []" "text' \<noteq> []" by (auto simp: json_Unmarshal_Nil)
  with assms show ?thesis by (simp add: ExecutePlan_def)
qed

lemma pull_run:
  "ExecutePlan (NewServer sim_client) (Some pull_text) (sim_world 0 [] []) =
     (error_reply (- 32000) ''failed to execute tool pull_image: context deadline exceeded'',
      \<lparr>engine = \<lparr>sim_clock = 30 * Second, sim_containers = [], sim_running = []\<rparr>,
       calls = [(plan_ctx, ImagePull ''redis:latest'')]\<rparr>,
      [Invocation ''pull_image'' plan_ctx [(''name'', JString ''redis'')] (Some ''context deadline exceeded'')])"
proof -
  have "pull_text \<noteq> []" by (simp add: pull_text_def)
  then show ?thesis
    unfolding ExecutePlan_def
    by (simp add: pull_unmarshal)
       (simp add: pull_plan_def plan_ctx_def error_reply_def server_eval)
qed

section \<open>Requests and contexts of the handlers\<close>

lemma requests_since_docker_do:
  "requests_since w (snd (docker_do cli ctx c w)) = [(ctx, c)]"
  by (simp add: requests_since_def docker_do_def split: prod.splits)

lemma requests_since_same: "requests_since w w = []"
  by (simp add: requests_since_def)

lemma first_request_docker_do:
  "first_request w (snd (docker_do cli ctx c w)) = Some c"
  by (simp add: first_request_def requests_since_docker_do)

lemma requests_since_docker_do2:
  "docker_do cli ctx c w = (r, w1) \<Longrightarrow>
   requests_since w (snd (docker_do cli ctx c2 w1)) = [(ctx, c), (ctx, c2)]"
  by (auto simp: requests_since_def docker_do_def split: prod.splits)

lemma PullImage_resolved:
  assumes "pull_reference params = Inr ref"
  shows "first_request w (snd (PullImage ctx cli params w)) = Some (ImagePull ref)"
proof -
  let ?pc = "WithTimeout ctx (now cli (engine w)) (2 * Minute)"
  obtain r w1 where d: "docker_do cli ?pc (ImagePull ref) w = (r, w1)"
    by (cases "docker_do cli ?pc (ImagePull ref) w")
  show ?thesis
  proof (cases r)
    case None
    with d assms have "requests_since w (snd (PullImage ctx cli params w))
        = [(?pc, ImagePull ref), (?pc, ReadPullOutput ref)]"
      by (simp add: PullImage_def Let_def requests_since_docker_do2)
    then show ?thesis by (simp add: first_request_def)
  next
    case (Some e)
    with d assms have "PullImage ctx cli params w = docker_do cli ?pc (ImagePull ref) w"
      by (simp add: PullImage_def Let_def)
    then show ?thesis by (simp add: first_request_docker_do)
  qed
qed

lemma PullImage_unresolved:
  "pull_reference params = Inl e \<Longrightarrow> PullImage ctx cli params w = (Some e, w)"
  by (simp add: PullImage_def)

lemma PullImage_requests:
  assumes "(c, r) \<in> set (requests_since w (snd (PullImage ctx cli params w)))"
  shows "c = WithTimeout ctx (now cli (engine w)) (2 * Minute)"
proof (cases "pull_reference params")
  case (Inl e)
  with assms show ?thesis by (simp add: PullImage_def requests_since_same)
next
  case (Inr ref)
  let ?pc = "WithTimeout ctx (now cli (engine w)) (2 * Minute)"
  obtain e w1 where d: "docker_do cli ?pc (ImagePull ref) w = (e, w1)"
    by (cases "docker_do cli ?pc (ImagePull ref) w")
  show ?thesis
  proof (cases e)
    case None
    with d Inr have "requests_since w (snd (PullImage ctx cli params w))
        = [(?pc, ImagePull ref), (?pc, ReadPullOutput ref)]"
      by (simp add: PullImage_def Let_def requests_since_docker_do2)
    with assms show ?thesis by auto
  next
    case (Some err)
    with d Inr have "PullImage ctx cli params w = docker_do cli ?pc (ImagePull ref) w"
      by (simp add: PullImage_def Let_def)
    with assms show ?thesis by (simp add: requests_since_docker_do)
  qed
qed

lemma WithTimeout_Background: "WithTimeout Background t d = \<lparr>deadline = Some (t + d)\<rparr>"
  by (simp add: WithTimeout_def WithDeadline_def Background_def)

lemma WithTimeout_capped:
  "deadline ctx = Some D \<Longrightarrow> \<exists>d. deadline (WithTimeout ctx t timeout) = Some d \<and> d \<le> D \<and> d \<le> t + timeout"
  by (auto simp: WithTimeout_def WithDeadline_def)

section \<open>The success path and the error paths\<close>

text \<open>
  The loop returns no error exactly on the success path; an error it returns has one of
  three codes; after a loop without error every action has its invocation.
\<close>

lemma run_actions_None_iff:
  "fst (run_actions s ctx plan w) = None \<longleftrightarrow> every_action_succeeds s ctx plan w"
proof (induction plan arbitrary: w)
  case Nil
  then show ?case by simp
next
  case (Cons action rest)
  obtain e w' invs where r: "run_actions s ctx (action # rest) w = (e, w', invs)"
    by (cases "run_actions s ctx (action # rest) w") auto
  from r show ?case
  proof (cases rule: run_actions_Cons_cases)
    case invalid
    then have "\<not> resolvable s action"
      by (auto simp: resolvable_def split: prod.splits)
    with r invalid show ?thesis by simp
  next
    case (unknown name)
    then have "\<not> resolvable s action" by (simp add: resolvable_def)
    with r unknown show ?thesis by simp
  next
    case (failed name tool err)
    with r show ?thesis by simp
  next
    case (continued name tool w1 invs')
    then have "resolvable s action" by (simp add: resolvable_def)
    with r continued Cons.IH [of w1] show ?thesis by simp
  qed
qed

lemma run_actions_codes:
  "run_actions s ctx plan w = (Some e, w', invs) \<Longrightarrow> Code e \<in> {- 32602, - 32601, - 32000}"
proof (induction plan arbitrary: w w' invs)
  case Nil
  then show ?case by simp
next
  case (Cons action rest)
  from Cons.prems show ?case
  proof (cases rule: run_actions_Cons_cases)
    case (continued name tool w1 invs')
    from Cons.IH [OF continued(5)] show ?thesis .
  qed (simp_all add: NewError_def)
qed

lemma run_actions_None_length:
  "run_actions s ctx plan w = (None, w', invs) \<Longrightarrow> length invs = length plan"
proof (induction plan arbitrary: w w' invs)
  case Nil
  then show ?case by simp
next
  case (Cons action rest)
  from Cons.prems show ?case
  proof (cases rule: run_actions_Cons_cases)
    case (continued name tool w1 invs')
    with Cons.IH [OF continued(5)] show ?thesis by simp
  qed simp_all
qed

text \<open>
  An action that resolves and whose bag is empty: the loop invokes its handler with the
  empty bag, and a failure of the handler ends the loop with the handler's message.
\<close>

lemma run_actions_empty_bag:
  assumes "as_string (map_of action ''action'') = (name, True)" and "name \<noteq> []"
      and "tools s name = Some tool" and "as_map (map_of action ''parameters'') = []"
  shows "\<exists>e w' invs. run_actions s ctx (action # rest) w = (e, w', Invocation name ctx [] (fst (Handler tool ctx (dockerClient s) [] w)) # invs)
       \<and> (\<forall>err w2. Handler tool ctx (dockerClient s) [] w = (Some err, w2) \<longrightarrow>
             e = Some (NewError (- 32000) (''failed to execute tool '' @ name @ '': '' @ err)) \<and> w' = w2 \<and> invs = [])"
proof -
  obtain r w2 where h: "Handler tool ctx (dockerClient s) [] w = (r, w2)"
    by (cases "Handler tool ctx (dockerClient s) [] w")
  show ?thesis
  proof (cases r)
    case None
    obtain e3 w3 invs3 where "run_actions s ctx rest w2 = (e3, w3, invs3)"
      by (cases "run_actions s ctx rest w2") auto
    with assms h None show ?thesis by simp
  next
    case (Some err)
    with assms h show ?thesis by simp
  qed
qed

text \<open>The envelope of each method on its success path and on its error paths.\<close>

lemma ExecutePlan_reply_cases:
  "(plan_succeeds s args w \<longrightarrow> fst (ExecutePlan s args w) = new_response\<lparr>Result := Some plan_success\<rparr>)
   \<and> (\<not> plan_succeeds s args w \<longrightarrow>
        (\<exists>code msg. code \<in> error_codes \<and> fst (ExecutePlan s args w) = error_reply code msg))"
proof (cases args)
  case None
  then show ?thesis
    by (auto simp: plan_succeeds_def ExecutePlan_def error_reply_def new_response_def NewError_def
        JSONRPCVersion_def error_codes_def)
next
  case (Some input)
  show ?thesis
  proof (cases "json_Unmarshal input")
    case (Inl err)
    then have "input = [] \<or> input \<noteq> []" by simp
    with Some Inl show ?thesis
      by (auto simp: plan_succeeds_def ExecutePlan_def error_reply_def new_response_def NewError_def
          JSONRPCVersion_def error_codes_def)
  next
    case (Inr plan)
    then have ne: "input \<noteq> []" by (auto simp: json_Unmarshal_Nil)
    let ?ctx = "WithTimeout Background (now (dockerClient s) (engine w)) (30 * Second)"
    show ?thesis
    proof (cases "plan = []")
      case True
      with Some Inr ne show ?thesis
        by (auto simp: plan_succeeds_def ExecutePlan_def error_reply_def new_response_def NewError_def
            JSONRPCVersion_def error_codes_def)
    next
      case False
      obtain e w' invs where r: "run_actions s ?ctx plan w = (e, w', invs)"
        by (cases "run_actions s ?ctx plan w") auto
      show ?thesis
      proof (cases e)
        case None
        with r have "every_action_succeeds s ?ctx plan w"
          using run_actions_None_iff [of s ?ctx plan w] by simp
        with Some Inr False have ps: "plan_succeeds s args w" by (simp add: plan_succeeds_def)
        from Some Inr False ne r None
        have "fst (ExecutePlan s args w) = new_response\<lparr>Result := Some plan_success\<rparr>"
          by (simp add: ExecutePlan_def Let_def json_Marshal_def plan_success_def)
        with ps show ?thesis by simp
      next
        case (Some err)
        with r have "\<not> every_action_succeeds s ?ctx plan w"
          using run_actions_None_iff [of s ?ctx plan w] by simp
        with \<open>args = Some input\<close> Inr have nps: "\<not> plan_succeeds s args w" by (simp add: plan_succeeds_def)
        from r Some have c: "Code err \<in> {- 32602, - 32601, - 32000}"
          using run_actions_codes by blast
        from \<open>args = Some input\<close> Inr False ne r Some
        have "fst (ExecutePlan s args w) = error_reply (Code err) (Message err)"
          by (simp add: ExecutePlan_def Let_def error_reply_def new_response_def JSONRPCVersion_def)
        with nps c show ?thesis by (auto simp: error_codes_def)
      qed
    qed
  qed
qed

lemma CallTool_reply_cases:
  "(tool_succeeds s call w \<longrightarrow>
       fst (CallTool s call w) = new_response\<lparr>Result := Some (tool_success (ToolName call))\<rparr>)
   \<and> (\<not> tool_succeeds s call w \<longrightarrow>
        (\<exists>code msg. code \<in> {- 32601, - 32000} \<and> fst (CallTool s call w) = error_reply code msg))"
  by (auto simp: tool_succeeds_def CallTool_def Let_def json_Marshal_def tool_success_def error_reply_def
      new_response_def NewError_def JSONRPCVersion_def split: option.splits prod.splits)

lemma ExecutePlan_of_run:
  assumes "json_Unmarshal text = Inr plan" and "plan \<noteq> []"
      and "run_actions s (plan_context s w) plan w = (e, w', invs)"
  shows "ExecutePlan s (Some text) w =
           ((case e of Some err \<Rightarrow> new_response\<lparr>Error := Some err\<rparr>
                     | None \<Rightarrow> new_response\<lparr>Result := Some plan_success\<rparr>), w', invs)"
proof -
  from assms(1) have ne: "text \<noteq> []" by (auto simp: json_Unmarshal_Nil)
  from assms(3) have r: "run_actions s (WithTimeout Background (now (dockerClient s) (engine w)) (30 * Second)) plan w
      = (e, w', invs)"
    by (simp add: plan_context_def)
  show ?thesis
  proof (cases e)
    case None
    with assms(1,2) ne r show ?thesis
      by (simp add: ExecutePlan_def Let_def json_Marshal_def plan_success_def)
  next
    case (Some err)
    with assms(1,2) ne r show ?thesis
      by (simp add: ExecutePlan_def Let_def)
  qed
qed

text \<open>The concrete plans and calls.\<close>

lemma scenario_succeeds: "plan_succeeds (NewServer sim_client) (Some scenario_text) (sim_world 0 [] [])"
  unfolding plan_succeeds_def
  by (simp add: scenario_unmarshal)
     (simp add: scenario_plan_def resolvable_def server_eval)

lemma conflict_fails: "\<not> plan_succeeds (NewServer sim_client) (Some scenario_text) (sim_world 0 [''c1''] [])"
  unfolding plan_succeeds_def
  by (simp add: scenario_unmarshal)
     (simp add: scenario_plan_def resolvable_def server_eval)

lemma make_net_succeeds: "tool_succeeds (NewServer sim_client) make_net (sim_world 0 [] [])"
  by (simp add: tool_succeeds_def make_net_def server_eval)

lemma make_net_unnamed_fails: "\<not> tool_succeeds (NewServer sim_client) make_net_unnamed (sim_world 0 [] [])"
  by (simp add: tool_succeeds_def make_net_unnamed_def server_eval)

lemma make_net_unnamed_run:
  "fst (CallTool (NewServer sim_client) make_net_unnamed (sim_world 0 [] [])) =
     error_reply (- 32000) ''failed to execute tool create_network: missing network name''"
  by (simp add: make_net_unnamed_def error_reply_def server_eval)

lemma mixed_unmarshal:
  "json_Unmarshal mixed_text = Inr ([net_action] @ volume_action # [run_action])"
  by (simp add: mixed_text_def net_action_def volume_action_def run_action_def json_eval)

lemma mixed_absent_unmarshal:
  "json_Unmarshal mixed_text_absent =
     Inr ([net_action] @ AList.delete ''parameters'' volume_action # [run_action])"
  by (simp add: mixed_text_absent_def net_action_def volume_action_def run_action_def json_eval)

lemma mixed_context: "plan_context (NewServer sim_client) (sim_world 0 [] []) = plan_ctx"
  by (simp add: plan_context_def plan_ctx_def server_eval)

lemma mixed_before:
  "run_actions (NewServer sim_client) (plan_context (NewServer sim_client) (sim_world 0 [] []))
     [net_action] (sim_world 0 [] []) =
   (None, net_done_world, [Invocation ''create_network'' plan_ctx [(''name'', JString ''net1'')] None])"
  by (simp add: plan_context_def net_action_def net_done_world_def plan_ctx_def server_eval)

lemma volume_handler_empty:
  "create_volume_handler plan_ctx sim_client [] net_done_world = (Some volume_message, net_done_world)"
  by (simp add: create_volume_handler_def CreateVolume_def volume_message_def)

section \<open>Plans run in order and stop at the first failure\<close>

text \<open>
  C1. A plan text that decodes to a non-empty plan: \<open>ExecutePlan\<close> invokes handlers one
  after the other, and the calls it made are an initial stretch of the calls the plan
  asks for, in the plan's order, each made once. If every action of the plan can be
  dispatched and every invocation succeeded, all \<open>N\<close> were made and the reply carries the
  fixed success payload and no error. If the invocation of action \<open>k\<close> (counted from 0
  here) returned an error, then every earlier invocation succeeded, it is the last
  invocation made (no later handler ran), and the reply carries no result and the error
  of code -32000 whose message names the tool of action \<open>k\<close> and the handler's error.
\<close>

theorem ExecutePlan_in_order_fail_fast:
  assumes "json_Unmarshal text = Inr plan" and "plan \<noteq> []"
      and "ExecutePlan s (Some text) w = (reply, w', invs)"
  shows "length invs \<le> length plan \<and> map inv_call invs = take (length invs) (planned plan)
       \<and> ((\<forall>a\<in>set plan. resolvable s a) \<and> (\<forall>i\<in>set invs. inv_outcome i = None) \<longrightarrow>
            length invs = length plan \<and> Result reply = Some plan_success \<and> Error reply = None)
       \<and> (\<forall>k err. k < length invs \<and> inv_outcome (invs ! k) = Some err \<longrightarrow>
            (\<forall>j<k. inv_outcome (invs ! j) = None) \<and> length invs = Suc k \<and> Result reply = None
            \<and> Error reply = Some \<lparr>Code = - 32000,
                 Message = ''failed to execute tool '' @ fst (planned plan ! k) @ '': '' @ err\<rparr>)"
proof -
  from ExecutePlan_runs[OF assms] obtain e where
    run: "run_actions s (WithTimeout Background (now (dockerClient s) (engine w)) (30 * Second)) plan w = (e, w', invs)"
    and reply: "reply = (case e of Some err \<Rightarrow> new_response\<lparr>Error := Some err\<rparr>
                               | None \<Rightarrow> new_response\<lparr>Result := Some plan_success\<rparr>)"
    by blast
  from run_actions_trace[OF run] have tr: "length invs \<le> length plan"
    "map inv_call invs = take (length invs) (planned plan)" by auto
  have ok: "length invs = length plan \<and> Result reply = Some plan_success \<and> Error reply = None"
    if "\<forall>a\<in>set plan. resolvable s a" "\<forall>i\<in>set invs. inv_outcome i = None"
    using run_actions_success[OF run that] reply by (simp add: new_response_def)
  have bad: "(\<forall>j<k. inv_outcome (invs ! j) = None) \<and> length invs = Suc k \<and> Result reply = None
            \<and> Error reply = Some \<lparr>Code = - 32000,
                 Message = ''failed to execute tool '' @ fst (planned plan ! k) @ '': '' @ err\<rparr>"
    if k: "k < length invs" and o: "inv_outcome (invs ! k) = Some err" for k err
  proof -
    from tr k have "inv_call (invs ! k) = planned plan ! k"
      by (metis nth_map nth_take)
    then have "inv_tool (invs ! k) = fst (planned plan ! k)"
      by (metis inv_call_def fst_conv)
    with run_actions_failure[OF run k o] reply show ?thesis
      by (simp add: new_response_def NewError_def)
  qed
  from tr ok bad show ?thesis by blast
qed

text \<open>
  The scenario on an empty engine (three invocations, success) and on an engine where
  \<open>c1\<close> exists (the second invocation fails and is the last).
\<close>

theorem ExecutePlan_in_order_fail_fast_witness:
  "json_Unmarshal scenario_text = Inr scenario_plan
   \<and> list_all (resolvable (NewServer sim_client)) scenario_plan
   \<and> ExecutePlan (NewServer sim_client) (Some scenario_text) (sim_world 0 [] []) =
       (new_response\<lparr>Result := Some plan_success\<rparr>, scenario_world, scenario_invocations)
   \<and> list_all (\<lambda>i. inv_outcome i = None) scenario_invocations
   \<and> map inv_call scenario_invocations = planned scenario_plan
   \<and> Error (new_response\<lparr>Result := Some plan_success\<rparr>) = None
   \<and> ExecutePlan (NewServer sim_client) (Some scenario_text) (sim_world 0 [''c1''] []) =
       (conflict_reply, conflict_world, conflict_invocations)
   \<and> inv_outcome (conflict_invocations ! 1) = Some conflict_message
   \<and> length conflict_invocations = 2
   \<and> map inv_call conflict_invocations = take 2 (planned scenario_plan)
   \<and> Result conflict_reply = None
   \<and> Error conflict_reply = Some \<lparr>Code = - 32000,
        Message = ''failed to execute tool create_container: '' @ conflict_message\<rparr>"
proof -
  note ok = ExecutePlan_in_order_fail_fast[OF scenario_unmarshal scenario_plan_nonempty scenario_run]
  note bad = ExecutePlan_in_order_fail_fast[OF scenario_unmarshal scenario_plan_nonempty conflict_run]
  have all_res: "\<forall>a\<in>set scenario_plan. resolvable (NewServer sim_client) a"
    using scenario_resolvable by (simp add: list_all_iff)
  have all_none: "\<forall>i\<in>set scenario_invocations. inv_outcome i = None"
    by (simp add: scenario_invocations_def)
  from ok all_res all_none have full: "length scenario_invocations = length scenario_plan"
    and res: "Error (new_response\<lparr>Result := Some plan_success\<rparr>) = None"
    by blast+
  from ok have "map inv_call scenario_invocations = take (length scenario_invocations) (planned scenario_plan)"
    by blast
  with full have calls_ok: "map inv_call scenario_invocations = planned scenario_plan"
    by (simp add: planned_def)
  have k: "1 < length conflict_invocations" "inv_outcome (conflict_invocations ! 1) = Some conflict_message"
    by (simp_all add: conflict_invocations_def)
  from bad k have last: "length conflict_invocations = Suc 1" and nores: "Result conflict_reply = None"
    and err: "Error conflict_reply = Some \<lparr>Code = - 32000,
        Message = ''failed to execute tool '' @ fst (planned scenario_plan ! 1) @ '': '' @ conflict_message\<rparr>"
    by blast+
  from last have two: "length conflict_invocations = 2" by simp
  from bad have "map inv_call conflict_invocations
      = take (length conflict_invocations) (planned scenario_plan)"
    by blast
  with two have calls_bad: "map inv_call conflict_invocations = take 2 (planned scenario_plan)"
    by simp
  have name: "fst (planned scenario_plan ! 1) = ''create_container''"
    by (simp add: planned_def scenario_plan_def)
  from err name have err': "Error conflict_reply = Some \<lparr>Code = - 32000,
        Message = ''failed to execute tool create_container: '' @ conflict_message\<rparr>"
    by simp
  from all_none have none': "list_all (\<lambda>i. inv_outcome i = None) scenario_invocations"
    by (simp add: list_all_iff)
  show ?thesis
    using scenario_unmarshal scenario_resolvable scenario_run none' calls_ok res conflict_run
      k(2) two calls_bad nores err'
    by blast
qed

section \<open>Bad input is classified before any handler runs\<close>

text \<open>
  C2. For the empty string and for the text \<^verbatim>\<open>[]\<close> \<open>ExecutePlan\<close> returns an envelope
  with error code -32602, for the text \<^verbatim>\<open>{not json\<close> one with error code -32700; in
  all three cases the world is the one it was given and no handler was invoked. The
  same holds in general: a non-empty text the decoder rejects gives -32700, and one
  that decodes to no action gives -32602.
\<close>

theorem ExecutePlan_bad_input:
  \<open>ExecutePlan s (Some '''') w = (error_reply (- 32602) ''ExecutePlan received empty plan'', w, [])
   \<and> ExecutePlan s (Some ''[]'') w = (error_reply (- 32602) ''received empty plan from LLM'', w, [])
   \<and> ExecutePlan s (Some ''{not json'') w =
       (error_reply (- 32700) (''failed to parse plan JSON: '' @ json_error_text SyntaxError), w, [])
   \<and> (\<forall>input e. input \<noteq> [] \<and> json_Unmarshal input = Inl e \<longrightarrow>
         ExecutePlan s (Some input) w =
           (error_reply (- 32700) (''failed to parse plan JSON: '' @ json_error_text e), w, []))
   \<and> (\<forall>input. input \<noteq> [] \<and> json_Unmarshal input = Inr [] \<longrightarrow>
         ExecutePlan s (Some input) w = (error_reply (- 32602) ''received empty plan from LLM'', w, []))\<close>
proof -
  have 1: \<open>ExecutePlan s (Some '''') w = (error_reply (- 32602) ''ExecutePlan received empty plan'', w, [])\<close>
    by (simp add: ExecutePlan_def error_reply_def new_response_def NewError_def JSONRPCVersion_def)
  have 4: \<open>ExecutePlan s (Some input) w =
      (error_reply (- 32700) (''failed to parse plan JSON: '' @ json_error_text e), w, [])\<close>
    if \<open>input \<noteq> []\<close> \<open>json_Unmarshal input = Inl e\<close> for input e
    using that
    by (simp add: ExecutePlan_def error_reply_def new_response_def NewError_def JSONRPCVersion_def)
  have 5: \<open>ExecutePlan s (Some input) w = (error_reply (- 32602) ''received empty plan from LLM'', w, [])\<close>
    if \<open>input \<noteq> []\<close> \<open>json_Unmarshal input = Inr []\<close> for input
    using that
    by (simp add: ExecutePlan_def error_reply_def new_response_def NewError_def JSONRPCVersion_def)
  have 2: \<open>ExecutePlan s (Some ''[]'') w = (error_reply (- 32602) ''received empty plan from LLM'', w, [])\<close>
    by (rule 5) (simp_all add: empty_array_unmarshal)
  have 3: \<open>ExecutePlan s (Some ''{not json'') w =
       (error_reply (- 32700) (''failed to parse plan JSON: '' @ json_error_text SyntaxError), w, [])\<close>
    by (rule 4) (simp_all add: not_json_unmarshal)
  from 1 2 3 4 5 show ?thesis by blast
qed

text \<open>The three texts on the registry of \<open>NewServer\<close> and an empty engine.\<close>

theorem ExecutePlan_bad_input_witness:
  \<open>ExecutePlan (NewServer sim_client) (Some '''') (sim_world 0 [] []) =
     (error_reply (- 32602) ''ExecutePlan received empty plan'', sim_world 0 [] [], [])
   \<and> ExecutePlan (NewServer sim_client) (Some ''[]'') (sim_world 0 [] []) =
     (error_reply (- 32602) ''received empty plan from LLM'', sim_world 0 [] [], [])
   \<and> json_Unmarshal ''{not json'' = Inl SyntaxError
   \<and> ExecutePlan (NewServer sim_client) (Some ''{not json'') (sim_world 0 [] []) =
     (error_reply (- 32700) (''failed to parse plan JSON: '' @ json_error_text SyntaxError),
      sim_world 0 [] [], [])
   \<and> Error (error_reply (- 32700) (''failed to parse plan JSON: '' @ json_error_text SyntaxError)) =
     Some \<lparr>Code = - 32700, Message = ''failed to parse plan JSON: '' @ json_error_text SyntaxError\<rparr>
   \<and> calls (sim_world 0 [] []) = []\<close>
proof -
  note t = ExecutePlan_bad_input [of "NewServer sim_client" "sim_world 0 [] []"]
  have ne: \<open>''{not json'' \<noteq> []\<close> by simp
  from t ne not_json_unmarshal
  have a: \<open>ExecutePlan (NewServer sim_client) (Some ''{not json'') (sim_world 0 [] []) =
     (error_reply (- 32700) (''failed to parse plan JSON: '' @ json_error_text SyntaxError),
      sim_world 0 [] [], [])\<close>
    by blast
  from t have b: \<open>ExecutePlan (NewServer sim_client) (Some '''') (sim_world 0 [] []) =
     (error_reply (- 32602) ''ExecutePlan received empty plan'', sim_world 0 [] [], [])\<close>
    and c: \<open>ExecutePlan (NewServer sim_client) (Some ''[]'') (sim_world 0 [] []) =
     (error_reply (- 32602) ''received empty plan from LLM'', sim_world 0 [] [], [])\<close>
    by blast+
  have d: \<open>Error (error_reply (- 32700) (''failed to parse plan JSON: '' @ json_error_text SyntaxError)) =
     Some \<lparr>Code = - 32700, Message = ''failed to parse plan JSON: '' @ json_error_text SyntaxError\<rparr>\<close>
    by (simp add: error_reply_def)
  have e: \<open>calls (sim_world 0 [] []) = []\<close> by (simp add: sim_world_def)
  from a b c d e not_json_unmarshal show ?thesis by blast
qed

section \<open>run_container starts the container without asking for its state\<close>

text \<open>
  C3, as amended. For every invocation of the run_container handler with a non-empty
  name, the handler makes exactly one request to the collaborator, \<open>ContainerStart\<close> of
  that name under the handler's context, and returns what that request returns; it makes
  no request for the container's state and never skips the start. The handler is the one
  \<open>NewServer\<close> registers as run_container.
\<close>

theorem run_container_starts_directly:
  assumes "as_string (map_of params ''name'') = (name, ok)" and "name \<noteq> []"
  shows "run_container_handler ctx cli params w = docker_do cli ctx (ContainerStart name) w
       \<and> requests_since w (snd (run_container_handler ctx cli params w)) = [(ctx, ContainerStart name)]
       \<and> fst (run_container_handler ctx cli params w) = fst (request cli ctx (ContainerStart name) (engine w))
       \<and> map_option Handler (tools (NewServer cli) ''run_container'') = Some run_container_handler"
proof -
  from assms have 1: "run_container_handler ctx cli params w = docker_do cli ctx (ContainerStart name) w"
    by (simp add: run_container_handler_def RunContainer_def)
  have 2: "map_option Handler (tools (NewServer cli) ''run_container'') = Some run_container_handler"
    by (simp add: NewServer_def RegisterTool_def)
  have 3: "fst (docker_do cli ctx (ContainerStart name) w) = fst (request cli ctx (ContainerStart name) (engine w))"
    by (simp add: docker_do_def split: prod.splits)
  from 1 2 3 show ?thesis by (simp add: requests_since_docker_do)
qed

theorem run_container_starts_directly_witness:
  "as_string (map_of [(''name'', JString ''c1'')] ''name'') = (''c1'', True)
   \<and> requests_since (sim_world 0 [''c1''] [])
        (snd (run_container_handler plan_ctx sim_client [(''name'', JString ''c1'')] (sim_world 0 [''c1''] [])))
      = [(plan_ctx, ContainerStart ''c1'')]
   \<and> fst (run_container_handler plan_ctx sim_client [(''name'', JString ''c1'')] (sim_world 0 [''c1''] [])) = None"
proof -
  have a: "as_string (map_of [(''name'', JString ''c1'')] ''name'') = (''c1'', True)" by simp
  have b: "''c1'' \<noteq> []" by simp
  note t = run_container_starts_directly [OF a b, of plan_ctx sim_client "sim_world 0 [''c1''] []"]
  from t have r: "requests_since (sim_world 0 [''c1''] [])
        (snd (run_container_handler plan_ctx sim_client [(''name'', JString ''c1'')] (sim_world 0 [''c1''] [])))
      = [(plan_ctx, ContainerStart ''c1'')]"
    by blast
  have n: "fst (run_container_handler plan_ctx sim_client [(''name'', JString ''c1'')] (sim_world 0 [''c1''] [])) = None"
    by (simp add: run_container_eval)
  from a r n show ?thesis by blast
qed

text \<open>
  C3 as stated fails: on an engine where \<open>c1\<close> is running, the handler's only request is
  the start of \<open>c1\<close>.
\<close>

theorem run_container_skips_nothing_counterexample:
  "sim_running (engine (sim_world 0 [''c1''] [''c1''])) = [''c1'']
   \<and> run_container_handler plan_ctx sim_client [(''name'', JString ''c1'')] (sim_world 0 [''c1''] [''c1'']) =
       (None, \<lparr>engine = \<lparr>sim_clock = Second, sim_containers = [''c1''], sim_running = [''c1'']\<rparr>,
               calls = [(plan_ctx, ContainerStart ''c1'')]\<rparr>)"
  by (simp add: run_container_handler_def RunContainer_def docker_do_def sim_client_def sim_request_def
      sim_world_def plan_ctx_def sim_cost_def Second_def)

section \<open>create_container reads the name and the image only\<close>

text \<open>
  C4, as amended. The create_container handler reads only \<^verbatim>\<open>name\<close> and
  \<^verbatim>\<open>image\<close>. With both non-empty strings it makes exactly one request,
  \<open>ContainerCreate\<close> of that image and name; when either is missing, empty or not a
  string it fails with the error "missing container name or image" and leaves the world
  as it was. Two parameter bags that agree on \<^verbatim>\<open>name\<close> and \<^verbatim>\<open>image\<close> give the
  same run, whatever \<^verbatim>\<open>volumes\<close> and \<^verbatim>\<open>networks\<close> hold.
\<close>

theorem create_container_reads_name_and_image:
  assumes "as_string (map_of params ''name'') = (name, okn)"
      and "as_string (map_of params ''image'') = (img, oki)"
  shows "(name \<noteq> [] \<and> img \<noteq> [] \<longrightarrow>
            create_container_handler ctx cli params w = docker_do cli ctx (ContainerCreate img name) w
            \<and> requests_since w (snd (create_container_handler ctx cli params w)) = [(ctx, ContainerCreate img name)])
       \<and> (name = [] \<or> img = [] \<longrightarrow>
            create_container_handler ctx cli params w = (Some ''missing container name or image'', w))
       \<and> (\<forall>params'. map_of params' ''name'' = map_of params ''name''
              \<and> map_of params' ''image'' = map_of params ''image'' \<longrightarrow>
            create_container_handler ctx cli params' w = create_container_handler ctx cli params w)"
proof -
  have 1: "create_container_handler ctx cli params w = docker_do cli ctx (ContainerCreate img name) w"
    if "name \<noteq> []" "img \<noteq> []"
    using assms that by (simp add: create_container_handler_def CreateContainer_def)
  have 2: "create_container_handler ctx cli params w = (Some ''missing container name or image'', w)"
    if "name = [] \<or> img = []"
    using assms that by (auto simp: create_container_handler_def)
  have 3: "create_container_handler ctx cli params' w = create_container_handler ctx cli params w"
    if "map_of params' ''name'' = map_of params ''name''" "map_of params' ''image'' = map_of params ''image''"
    for params'
    using that by (simp add: create_container_handler_def)
  have 4: "requests_since w (snd (create_container_handler ctx cli params w)) = [(ctx, ContainerCreate img name)]"
    if "name \<noteq> []" "img \<noteq> []"
    using 1 [OF that] by (simp add: requests_since_docker_do)
  from 1 2 3 4 show ?thesis by blast
qed

theorem create_container_reads_name_and_image_witness:
  "as_string (map_of bad_volumes_params ''name'') = (''c1'', True)
   \<and> as_string (map_of bad_volumes_params ''image'') = (''nginx'', True)
   \<and> requests_since (sim_world 0 [] [])
        (snd (create_container_handler plan_ctx sim_client bad_volumes_params (sim_world 0 [] [])))
      = [(plan_ctx, ContainerCreate ''nginx'' ''c1'')]
   \<and> create_container_handler plan_ctx sim_client bad_volumes_params (sim_world 0 [] []) =
      create_container_handler plan_ctx sim_client [(''name'', JString ''c1''), (''image'', JString ''nginx'')]
        (sim_world 0 [] [])"
proof -
  have a: "as_string (map_of bad_volumes_params ''name'') = (''c1'', True)"
    and b: "as_string (map_of bad_volumes_params ''image'') = (''nginx'', True)"
    by (simp_all add: bad_volumes_params_def)
  note t = create_container_reads_name_and_image [OF a b, of plan_ctx sim_client "sim_world 0 [] []"]
  have ne: "''c1'' \<noteq> [] \<and> ''nginx'' \<noteq> []" by simp
  from t ne have r: "requests_since (sim_world 0 [] [])
        (snd (create_container_handler plan_ctx sim_client bad_volumes_params (sim_world 0 [] [])))
      = [(plan_ctx, ContainerCreate ''nginx'' ''c1'')]"
    by blast
  have "map_of [(''name'', JString ''c1''), (''image'', JString ''nginx'')] ''name'' = map_of bad_volumes_params ''name''
      \<and> map_of [(''name'', JString ''c1''), (''image'', JString ''nginx'')] ''image'' = map_of bad_volumes_params ''image''"
    by (simp add: bad_volumes_params_def)
  with t have e: "create_container_handler plan_ctx sim_client [(''name'', JString ''c1''), (''image'', JString ''nginx'')]
        (sim_world 0 [] []) = create_container_handler plan_ctx sim_client bad_volumes_params (sim_world 0 [] [])"
    by blast
  from a b r e show ?thesis by metis
qed

text \<open>
  C4 as stated fails: with \<^verbatim>\<open>volumes\<close> a list that holds a number, the handler
  succeeds and has asked the collaborator to create the container.
\<close>

theorem create_container_bad_volumes_counterexample:
  "map_of bad_volumes_params ''volumes'' = Some (JArray [JNumber ''123''])
   \<and> create_container_handler plan_ctx sim_client bad_volumes_params (sim_world 0 [] []) =
       (None, \<lparr>engine = \<lparr>sim_clock = Second, sim_containers = [''c1''], sim_running = []\<rparr>,
               calls = [(plan_ctx, ContainerCreate ''nginx'' ''c1'')]\<rparr>)"
  by (simp add: bad_volumes_params_def create_container_handler_def CreateContainer_def docker_do_def
      sim_client_def sim_request_def sim_world_def plan_ctx_def sim_cost_def Second_def)

section \<open>The image reference of pull_image\<close>

text \<open>
  C5. The pull_image handler pulls the \<^verbatim>\<open>image\<close> parameter when it is a non-empty
  string. Otherwise, when \<^verbatim>\<open>name\<close> is a non-empty string, it pulls
  \<open>name:tag\<close> for a non-empty string \<^verbatim>\<open>tag\<close> and \<open>name:latest\<close> when
  \<^verbatim>\<open>tag\<close> is absent (and also when it is empty or not a string). When neither
  \<^verbatim>\<open>image\<close> nor \<^verbatim>\<open>name\<close> is a non-empty string it fails and makes no request.
\<close>

theorem pull_image_reference:
  "(map_of params ''image'' = Some (JString img) \<and> img \<noteq> [] \<longrightarrow>
      first_request w (snd (pull_image_handler ctx cli params w)) = Some (ImagePull img))
   \<and> (\<not> usable params ''image'' \<and> map_of params ''name'' = Some (JString name) \<and> name \<noteq> [] \<longrightarrow>
        (map_of params ''tag'' = Some (JString tag) \<and> tag \<noteq> [] \<longrightarrow>
           first_request w (snd (pull_image_handler ctx cli params w)) = Some (ImagePull (name @ '':'' @ tag)))
      \<and> (map_of params ''tag'' = None \<longrightarrow>
           first_request w (snd (pull_image_handler ctx cli params w)) = Some (ImagePull (name @ '':latest'')))
      \<and> (\<not> usable params ''tag'' \<longrightarrow>
           first_request w (snd (pull_image_handler ctx cli params w)) = Some (ImagePull (name @ '':latest''))))
   \<and> (\<not> usable params ''image'' \<and> \<not> usable params ''name'' \<longrightarrow>
        pull_image_handler ctx cli params w = (Some ''missing image name for pull_image'', w)
        \<and> requests_since w (snd (pull_image_handler ctx cli params w)) = [])"
proof -
  have 1: "first_request w (snd (pull_image_handler ctx cli params w)) = Some (ImagePull img)"
    if "map_of params ''image'' = Some (JString img)" "img \<noteq> []"
  proof -
    from that have "pull_reference params = Inr img" by (simp add: pull_reference_def)
    then show ?thesis by (simp add: pull_image_handler_def PullImage_resolved)
  qed
  have 2: "first_request w (snd (pull_image_handler ctx cli params w)) = Some (ImagePull (name @ '':'' @ tag))"
    if "\<not> usable params ''image''" "map_of params ''name'' = Some (JString name)" "name \<noteq> []"
       "map_of params ''tag'' = Some (JString tag)" "tag \<noteq> []"
  proof -
    from that have "pull_reference params = Inr (name @ '':'' @ tag)"
      by (auto simp: pull_reference_def usable_def split: prod.splits)
    then show ?thesis by (simp add: pull_image_handler_def PullImage_resolved)
  qed
  have 3: "first_request w (snd (pull_image_handler ctx cli params w)) = Some (ImagePull (name @ '':latest''))"
    if "\<not> usable params ''image''" "map_of params ''name'' = Some (JString name)" "name \<noteq> []"
       "\<not> usable params ''tag''"
  proof -
    from that have "pull_reference params = Inr (name @ '':latest'')"
      by (auto simp: pull_reference_def usable_def split: prod.splits)
    then show ?thesis by (simp add: pull_image_handler_def PullImage_resolved)
  qed
  have absent: "\<not> usable params ''tag''" if "map_of params ''tag'' = None"
    using that by (simp add: usable_def)
  have 4: "pull_image_handler ctx cli params w = (Some ''missing image name for pull_image'', w)"
    if "\<not> usable params ''image''" "\<not> usable params ''name''"
  proof -
    from that have "pull_reference params = Inl ''missing image name for pull_image''"
      by (auto simp: pull_reference_def usable_def split: prod.splits)
    then show ?thesis by (simp add: pull_image_handler_def PullImage_unresolved)
  qed
  have 5: "requests_since w (snd (pull_image_handler ctx cli params w)) = []"
    if "\<not> usable params ''image''" "\<not> usable params ''name''"
    using 4 [OF that] by (simp add: requests_since_same)
  from 1 2 3 absent 4 5 show ?thesis by blast
qed

theorem pull_image_reference_witness:
  "\<not> usable [(''name'', JString ''redis'')] ''image''
   \<and> map_of [(''name'', JString ''redis'')] ''name'' = Some (JString ''redis'')
   \<and> map_of [(''name'', JString ''redis'')] ''tag'' = None
   \<and> first_request (sim_world 0 [] [])
        (snd (pull_image_handler plan_ctx sim_client [(''name'', JString ''redis'')] (sim_world 0 [] [])))
      = Some (ImagePull ''redis:latest'')
   \<and> \<not> usable [(''tag'', JString ''7'')] ''name''
   \<and> pull_image_handler plan_ctx sim_client [(''tag'', JString ''7'')] (sim_world 0 [] []) =
        (Some ''missing image name for pull_image'', sim_world 0 [] [])"
proof -
  have a: "\<not> usable [(''name'', JString ''redis'')] ''image''"
    and b: "map_of [(''name'', JString ''redis'')] ''name'' = Some (JString ''redis'')"
    and c: "map_of [(''name'', JString ''redis'')] ''tag'' = None"
    and d: "''redis'' \<noteq> []"
    and e: "\<not> usable [(''tag'', JString ''7'')] ''name''"
    and f: "\<not> usable [(''tag'', JString ''7'')] ''image''"
    by (simp_all add: usable_def)
  from pull_image_reference [of "[(''name'', JString ''redis'')]" _ "sim_world 0 [] []" plan_ctx sim_client "''redis''"]
    a b c d
  have g: "first_request (sim_world 0 [] [])
        (snd (pull_image_handler plan_ctx sim_client [(''name'', JString ''redis'')] (sim_world 0 [] [])))
      = Some (ImagePull (''redis'' @ '':latest''))"
    by blast
  from pull_image_reference [of "[(''tag'', JString ''7'')]" _ "sim_world 0 [] []" plan_ctx sim_client] e f
  have h: "pull_image_handler plan_ctx sim_client [(''tag'', JString ''7'')] (sim_world 0 [] []) =
        (Some ''missing image name for pull_image'', sim_world 0 [] [])"
    by blast
  from g have g': "first_request (sim_world 0 [] [])
        (snd (pull_image_handler plan_ctx sim_client [(''name'', JString ''redis'')] (sim_world 0 [] [])))
      = Some (ImagePull ''redis:latest'')"
    by simp
  from a b c g' e h show ?thesis by blast
qed

section \<open>Registering a name again replaces the entry\<close>

text \<open>
  C6. After two registrations under one name, the registry holds under that name the
  handler, the description and the schema of the second, and every other name has the
  entry it had before; the registry is the one the second registration alone gives.
\<close>

theorem RegisterTool_last_wins:
  "tools (RegisterTool name d2 i2 h2 (RegisterTool name d1 i1 h1 s)) name =
      Some \<lparr>Name = name, Description = d2, InputSchema = i2, Handler = h2\<rparr>
   \<and> (\<forall>other. other \<noteq> name \<longrightarrow>
        tools (RegisterTool name d2 i2 h2 (RegisterTool name d1 i1 h1 s)) other = tools s other)
   \<and> RegisterTool name d2 i2 h2 (RegisterTool name d1 i1 h1 s) = RegisterTool name d2 i2 h2 s"
  by (simp add: RegisterTool_def)

theorem RegisterTool_last_wins_witness:
  "tools (RegisterTool ''run_container'' ''second'' [] create_volume_handler (NewServer sim_client)) ''run_container'' =
      Some \<lparr>Name = ''run_container'', Description = ''second'', InputSchema = [], Handler = create_volume_handler\<rparr>
   \<and> ''pull_image'' \<noteq> ''run_container''
   \<and> tools (RegisterTool ''run_container'' ''second'' [] create_volume_handler (NewServer sim_client)) ''pull_image'' =
      Some \<lparr>Name = ''pull_image'', Description = ''Pull a Docker image'', InputSchema = pull_image_schema,
            Handler = pull_image_handler\<rparr>"
proof -
  have ns: "NewServer sim_client =
      RegisterTool ''pull_image'' ''Pull a Docker image'' pull_image_schema pull_image_handler
       (RegisterTool ''run_container'' ''Run (start) a Docker container''
         (name_schema ''Name of the container'') run_container_handler
       (RegisterTool ''create_volume'' ''Create a Docker volume''
         (name_schema ''Name of the volume'') create_volume_handler
       (RegisterTool ''create_container'' ''Create a Docker container''
         create_container_schema create_container_handler
       (RegisterTool ''create_network'' ''Create a Docker network''
         (name_schema ''Name of the network'') create_network_handler
       \<lparr>dockerClient = sim_client, tools = Map.empty\<rparr>))))"
    by (simp add: NewServer_def)
  note lw = RegisterTool_last_wins [of "''run_container''" "''second''" "[]" create_volume_handler
      "''Run (start) a Docker container''" "name_schema ''Name of the container''" run_container_handler
      "RegisterTool ''create_volume'' ''Create a Docker volume''
         (name_schema ''Name of the volume'') create_volume_handler
       (RegisterTool ''create_container'' ''Create a Docker container''
         create_container_schema create_container_handler
       (RegisterTool ''create_network'' ''Create a Docker network''
         (name_schema ''Name of the network'') create_network_handler
       \<lparr>dockerClient = sim_client, tools = Map.empty\<rparr>))"]
  have a: "tools (RegisterTool ''run_container'' ''second'' [] create_volume_handler (NewServer sim_client)) ''run_container'' =
      Some \<lparr>Name = ''run_container'', Description = ''second'', InputSchema = [], Handler = create_volume_handler\<rparr>"
    by (simp add: RegisterTool_def)
  show ?thesis using lw a by (simp add: ns RegisterTool_def)
qed

section \<open>An unknown tool\<close>

text \<open>
  C7, as amended. For every non-empty name with no entry in the registry, \<open>CallTool\<close>
  returns an envelope with no result and the error of code -32601, and so does
  \<open>ExecutePlan\<close> when its loop reaches an action of that name (the actions before it
  having run without error); the messages are "unknown tool: name" and
  "unknown action: name". Neither invokes a handler for the name.
\<close>

theorem unknown_tool_same_code:
  assumes "tools s name = None" and "name \<noteq> []"
      and "json_Unmarshal text = Inr (before @ action # after)"
      and "as_string (map_of action ''action'') = (name, True)"
      and "run_actions s (WithTimeout Background (now (dockerClient s) (engine w)) (30 * Second)) before w
             = (None, w1, invs1)"
  shows "CallTool s \<lparr>ToolName = name, Parameters = ps\<rparr> w =
           (error_reply (- 32601) (''unknown tool: '' @ name), w, [])
       \<and> ExecutePlan s (Some text) w = (error_reply (- 32601) (''unknown action: '' @ name), w1, invs1)
       \<and> name \<notin> inv_tool ` set invs1"
proof -
  let ?ctx = "WithTimeout Background (now (dockerClient s) (engine w)) (30 * Second)"
  from assms(1) have call: "CallTool s \<lparr>ToolName = name, Parameters = ps\<rparr> w =
           (error_reply (- 32601) (''unknown tool: '' @ name), w, [])"
    by (simp add: CallTool_def error_reply_def new_response_def NewError_def JSONRPCVersion_def)
  from assms(1,2,4) have step: "run_actions s ?ctx (action # after) w1 =
      (Some \<lparr>Code = - 32601, Message = ''unknown action: '' @ name\<rparr>, w1, [])"
    by (simp add: NewError_def)
  with assms(5) have "run_actions s ?ctx (before @ action # after) w =
      (Some \<lparr>Code = - 32601, Message = ''unknown action: '' @ name\<rparr>, w1, invs1)"
    by (simp add: run_actions_append)
  from ExecutePlan_error [OF assms(3) _ this]
  have plan: "ExecutePlan s (Some text) w = (error_reply (- 32601) (''unknown action: '' @ name), w1, invs1)"
    by simp
  have "name \<notin> inv_tool ` set invs1"
  proof
    assume "name \<in> inv_tool ` set invs1"
    then obtain i where "i \<in> set invs1" "inv_tool i = name" by auto
    with run_actions_registered [OF assms(5)] assms(1) show False by force
  qed
  with call plan show ?thesis by blast
qed

theorem unknown_tool_same_code_witness:
  "tools (NewServer sim_client) ''ghost'' = None
   \<and> json_Unmarshal ghost_text = Inr ghost_plan
   \<and> CallTool (NewServer sim_client) \<lparr>ToolName = ''ghost'', Parameters = []\<rparr> (sim_world 0 [] []) =
       (error_reply (- 32601) ''unknown tool: ghost'', sim_world 0 [] [], [])
   \<and> ExecutePlan (NewServer sim_client) (Some ghost_text) (sim_world 0 [] []) =
       (error_reply (- 32601) ''unknown action: ghost'',
        \<lparr>engine = \<lparr>sim_clock = Second, sim_containers = [], sim_running = []\<rparr>,
         calls = [(plan_ctx, NetworkCreate ''net1'')]\<rparr>,
        [Invocation ''create_network'' plan_ctx [(''name'', JString ''net1'')] None])"
proof -
  have a: "tools (NewServer sim_client) ''ghost'' = None"
    by (simp add: NewServer_def RegisterTool_def)
  have b: "''ghost'' \<noteq> []" by simp
  have c: "json_Unmarshal ghost_text =
      Inr ([[(''action'', JString ''create_network''), (''parameters'', JObject [(''name'', JString ''net1'')])]]
           @ [(''action'', JString ''ghost'')] # [])"
    using ghost_unmarshal by (simp add: ghost_plan_def)
  have d: "as_string (map_of [(''action'', JString ''ghost'')] ''action'') = (''ghost'', True)" by simp
  note t = unknown_tool_same_code [OF a b c d ghost_before, of "[]"]
  from t have "CallTool (NewServer sim_client) \<lparr>ToolName = ''ghost'', Parameters = []\<rparr> (sim_world 0 [] []) =
       (error_reply (- 32601) (''unknown tool: '' @ ''ghost''), sim_world 0 [] [], [])"
    and "ExecutePlan (NewServer sim_client) (Some ghost_text) (sim_world 0 [] []) =
       (error_reply (- 32601) (''unknown action: '' @ ''ghost''),
        \<lparr>engine = \<lparr>sim_clock = Second, sim_containers = [], sim_running = []\<rparr>,
         calls = [(plan_ctx, NetworkCreate ''net1'')]\<rparr>,
        [Invocation ''create_network'' plan_ctx [(''name'', JString ''net1'')] None])"
    by blast+
  with a ghost_unmarshal show ?thesis by simp
qed

text \<open>
  C7 as stated fails for the empty name: it has no entry, \<open>CallTool\<close> answers -32601,
  and \<open>ExecutePlan\<close> answers an action of that name with -32602.
\<close>

theorem empty_name_codes_differ_counterexample:
  "tools (NewServer sim_client) [] = None
   \<and> CallTool (NewServer sim_client) \<lparr>ToolName = [], Parameters = []\<rparr> (sim_world 0 [] []) =
       (error_reply (- 32601) ''unknown tool: '', sim_world 0 [] [], [])
   \<and> json_Unmarshal empty_name_text = Inr [[(''action'', JString [])]]
   \<and> ExecutePlan (NewServer sim_client) (Some empty_name_text) (sim_world 0 [] []) =
       (error_reply (- 32602) ''invalid action format'', sim_world 0 [] [], [])"
proof -
  have a: "tools (NewServer sim_client) [] = None"
    by (simp add: NewServer_def RegisterTool_def)
  then have b: "CallTool (NewServer sim_client) \<lparr>ToolName = [], Parameters = []\<rparr> (sim_world 0 [] []) =
       (error_reply (- 32601) ''unknown tool: '', sim_world 0 [] [], [])"
    by (simp add: CallTool_def error_reply_def new_response_def NewError_def JSONRPCVersion_def)
  have "empty_name_text \<noteq> []" by (simp add: empty_name_text_def)
  then have c: "ExecutePlan (NewServer sim_client) (Some empty_name_text) (sim_world 0 [] []) =
       (error_reply (- 32602) ''invalid action format'', sim_world 0 [] [], [])"
    unfolding ExecutePlan_def
    by (simp add: empty_name_unmarshal)
       (simp add: error_reply_def new_response_def NewError_def JSONRPCVersion_def)
  from a b c empty_name_unmarshal show ?thesis by blast
qed

section \<open>The deadline of a plan and the pull under it\<close>

text \<open>
  C8. Every handler invocation of a plan gets the one context created before the loop,
  whose deadline is 30 seconds after the reading of the clock at that point. The context
  \<open>PullImage\<close> derives for the pull never has a later deadline than the context the
  handler was given: under a plan's context the pull does not get the longer timeout of
  2 minutes that the comment in the source speaks of.
\<close>

theorem plan_deadline_shared_and_caps_pull:
  assumes "json_Unmarshal text = Inr plan" and "plan \<noteq> []"
      and "ExecutePlan s (Some text) w = (reply, w', invs)"
  shows "(\<forall>i\<in>set invs. inv_ctx i = \<lparr>deadline = Some (now (dockerClient s) (engine w) + 30 * Second)\<rparr>)
       \<and> (\<forall>ctx D cli params w0 c r.
            deadline ctx = Some D
            \<and> (c, r) \<in> set (requests_since w0 (snd (pull_image_handler ctx cli params w0))) \<longrightarrow>
            (\<exists>d. deadline c = Some d \<and> d \<le> D))"
proof -
  from ExecutePlan_runs [OF assms] obtain e where
    "run_actions s (WithTimeout Background (now (dockerClient s) (engine w)) (30 * Second)) plan w = (e, w', invs)"
    by blast
  from run_actions_ctx [OF this]
  have shared: "\<forall>i\<in>set invs. inv_ctx i = \<lparr>deadline = Some (now (dockerClient s) (engine w) + 30 * Second)\<rparr>"
    by (simp add: WithTimeout_Background)
  have capped: "\<exists>d. deadline c = Some d \<and> d \<le> D"
    if "deadline ctx = Some D"
      "(c, r) \<in> set (requests_since w0 (snd (pull_image_handler ctx cli params w0)))"
    for ctx :: Context and D and cli :: "'b client" and params w0 c r
  proof -
    from that(2) have "c = WithTimeout ctx (now cli (engine w0)) (2 * Minute)"
      by (simp add: pull_image_handler_def PullImage_requests)
    with WithTimeout_capped [OF that(1)] show ?thesis by blast
  qed
  from shared capped show ?thesis by blast
qed

text \<open>
  A pull that needs 40 seconds, in a plan started at 0: the request is made under the
  deadline of 30 seconds and fails when that passes.
\<close>

theorem plan_deadline_shared_and_caps_pull_witness:
  "json_Unmarshal pull_text = Inr pull_plan
   \<and> ExecutePlan (NewServer sim_client) (Some pull_text) (sim_world 0 [] []) =
     (error_reply (- 32000) ''failed to execute tool pull_image: context deadline exceeded'',
      \<lparr>engine = \<lparr>sim_clock = 30 * Second, sim_containers = [], sim_running = []\<rparr>,
       calls = [(plan_ctx, ImagePull ''redis:latest'')]\<rparr>,
      [Invocation ''pull_image'' plan_ctx [(''name'', JString ''redis'')] (Some ''context deadline exceeded'')])
   \<and> inv_ctx (Invocation ''pull_image'' plan_ctx [(''name'', JString ''redis'')] (Some ''context deadline exceeded''))
       = \<lparr>deadline = Some (30 * Second)\<rparr>
   \<and> requests_since (sim_world 0 [] [])
        (snd (pull_image_handler plan_ctx sim_client [(''name'', JString ''redis'')] (sim_world 0 [] [])))
       = [(plan_ctx, ImagePull ''redis:latest'')]
   \<and> deadline plan_ctx = Some (30 * Second)
   \<and> 30 * Second < 2 * Minute"
proof -
  have ne: "pull_plan \<noteq> []" by (simp add: pull_plan_def)
  note t = plan_deadline_shared_and_caps_pull [OF pull_unmarshal ne pull_run]
  from t have "\<forall>i\<in>set [Invocation ''pull_image'' plan_ctx [(''name'', JString ''redis'')] (Some ''context deadline exceeded'')].
      inv_ctx i = \<lparr>deadline = Some (now (dockerClient (NewServer sim_client)) (engine (sim_world 0 [] [])) + 30 * Second)\<rparr>"
    by blast
  then have "inv_ctx (Invocation ''pull_image'' plan_ctx [(''name'', JString ''redis'')] (Some ''context deadline exceeded''))
       = \<lparr>deadline = Some (now (dockerClient (NewServer sim_client)) (engine (sim_world 0 [] [])) + 30 * Second)\<rparr>"
    by (simp del: invocation.sel)
  then have a: "inv_ctx (Invocation ''pull_image'' plan_ctx [(''name'', JString ''redis'')] (Some ''context deadline exceeded''))
       = \<lparr>deadline = Some (30 * Second)\<rparr>"
    by (simp add: NewServer_def RegisterTool_def sim_client_def sim_world_def)
  have b: "requests_since (sim_world 0 [] [])
        (snd (pull_image_handler plan_ctx sim_client [(''name'', JString ''redis'')] (sim_world 0 [] [])))
       = [(plan_ctx, ImagePull ''redis:latest'')]"
    by (simp add: requests_since_def plan_ctx_def server_eval)
  have c: "deadline plan_ctx = Some (30 * Second)" "30 * Second < 2 * Minute"
    by (simp_all add: plan_ctx_def Minute_def Second_def)
  from pull_unmarshal pull_run a b c show ?thesis by blast
qed

section \<open>Exactly one of result and error\<close>

text \<open>
  C9. The envelope \<open>ExecutePlan\<close> returns and the envelope \<open>CallTool\<close> returns have
  exactly one of result and error, for every registry, every handler, every argument
  and every world, and which one is fixed by the path. On the success path of
  \<open>ExecutePlan\<close> the result is the success payload of a plan and the error is absent; on
  every other path the result is absent and the error is set, with one of the codes of
  the server. On the success path of \<open>CallTool\<close> the result is the success payload that
  names the tool and the error is absent; on every other path the result is absent and
  the error is set, with one of the codes of the server.
\<close>

theorem Envelope_exactly_one:
  "exactly_one_populated (fst (ExecutePlan s args w)) \<and> exactly_one_populated (fst (CallTool s call w))
   \<and> (plan_succeeds s args w \<longrightarrow>
        Result (fst (ExecutePlan s args w)) = Some plan_success \<and> Error (fst (ExecutePlan s args w)) = None)
   \<and> (\<not> plan_succeeds s args w \<longrightarrow>
        Result (fst (ExecutePlan s args w)) = None
        \<and> (\<exists>code msg. code \<in> error_codes
              \<and> Error (fst (ExecutePlan s args w)) = Some \<lparr>Code = code, Message = msg\<rparr>))
   \<and> (tool_succeeds s call w \<longrightarrow>
        Result (fst (CallTool s call w)) = Some (tool_success (ToolName call))
        \<and> Error (fst (CallTool s call w)) = None)
   \<and> (\<not> tool_succeeds s call w \<longrightarrow>
        Result (fst (CallTool s call w)) = None
        \<and> (\<exists>code msg. code \<in> error_codes
              \<and> Error (fst (CallTool s call w)) = Some \<lparr>Code = code, Message = msg\<rparr>))"
proof -
  note p = ExecutePlan_reply_cases [of s args w]
  note c = CallTool_reply_cases [of s call w]
  have p1: "Result (fst (ExecutePlan s args w)) = Some plan_success \<and> Error (fst (ExecutePlan s args w)) = None"
    if "plan_succeeds s args w"
    using p that by (simp add: new_response_def)
  have p2: "Result (fst (ExecutePlan s args w)) = None
        \<and> (\<exists>code msg. code \<in> error_codes
              \<and> Error (fst (ExecutePlan s args w)) = Some \<lparr>Code = code, Message = msg\<rparr>)"
    if "\<not> plan_succeeds s args w"
  proof -
    from p that obtain code msg where "code \<in> error_codes"
      "fst (ExecutePlan s args w) = error_reply code msg" by blast
    then show ?thesis by (auto simp: error_reply_def)
  qed
  have c1: "Result (fst (CallTool s call w)) = Some (tool_success (ToolName call))
        \<and> Error (fst (CallTool s call w)) = None"
    if "tool_succeeds s call w"
    using c that by (simp add: new_response_def)
  have c2: "Result (fst (CallTool s call w)) = None
        \<and> (\<exists>code msg. code \<in> error_codes
              \<and> Error (fst (CallTool s call w)) = Some \<lparr>Code = code, Message = msg\<rparr>)"
    if "\<not> tool_succeeds s call w"
  proof -
    from c that obtain code msg where "code \<in> {- 32601, - 32000}"
      "fst (CallTool s call w) = error_reply code msg" by blast
    then show ?thesis by (auto simp: error_reply_def error_codes_def)
  qed
  have x1: "exactly_one_populated (fst (ExecutePlan s args w))"
    using p1 p2 by (cases "plan_succeeds s args w") (auto simp: exactly_one_populated_def)
  have x2: "exactly_one_populated (fst (CallTool s call w))"
    using c1 c2 by (cases "tool_succeeds s call w") (auto simp: exactly_one_populated_def)
  from x1 x2 p1 p2 c1 c2 show ?thesis by blast
qed

theorem Envelope_exactly_one_witness:
  "plan_succeeds (NewServer sim_client) (Some scenario_text) (sim_world 0 [] [])
   \<and> Result (fst (ExecutePlan (NewServer sim_client) (Some scenario_text) (sim_world 0 [] []))) = Some plan_success
   \<and> Error (fst (ExecutePlan (NewServer sim_client) (Some scenario_text) (sim_world 0 [] []))) = None
   \<and> \<not> plan_succeeds (NewServer sim_client) (Some scenario_text) (sim_world 0 [''c1''] [])
   \<and> fst (ExecutePlan (NewServer sim_client) (Some scenario_text) (sim_world 0 [''c1''] [])) = conflict_reply
   \<and> Result conflict_reply = None
   \<and> Error conflict_reply = Some \<lparr>Code = - 32000,
        Message = ''failed to execute tool create_container: '' @ conflict_message\<rparr>
   \<and> tool_succeeds (NewServer sim_client) make_net (sim_world 0 [] [])
   \<and> Result (fst (CallTool (NewServer sim_client) make_net (sim_world 0 [] []))) = Some (tool_success ''create_network'')
   \<and> Error (fst (CallTool (NewServer sim_client) make_net (sim_world 0 [] []))) = None
   \<and> \<not> tool_succeeds (NewServer sim_client) make_net_unnamed (sim_world 0 [] [])
   \<and> fst (CallTool (NewServer sim_client) make_net_unnamed (sim_world 0 [] [])) =
        error_reply (- 32000) ''failed to execute tool create_network: missing network name''
   \<and> Result (error_reply (- 32000) ''failed to execute tool create_network: missing network name'') = None
   \<and> exactly_one_populated conflict_reply"
proof -
  note ok = Envelope_exactly_one [of "NewServer sim_client" "Some scenario_text" "sim_world 0 [] []" make_net]
  note bad = Envelope_exactly_one [of "NewServer sim_client" "Some scenario_text" "sim_world 0 [''c1''] []"
      make_net_unnamed]
  from ok scenario_succeeds
  have a: "Result (fst (ExecutePlan (NewServer sim_client) (Some scenario_text) (sim_world 0 [] []))) = Some plan_success"
    and b: "Error (fst (ExecutePlan (NewServer sim_client) (Some scenario_text) (sim_world 0 [] []))) = None"
    by blast+
  from ok make_net_succeeds
  have c: "Result (fst (CallTool (NewServer sim_client) make_net (sim_world 0 [] [])))
      = Some (tool_success (ToolName make_net))"
    and d: "Error (fst (CallTool (NewServer sim_client) make_net (sim_world 0 [] []))) = None"
    by blast+
  from c have c': "Result (fst (CallTool (NewServer sim_client) make_net (sim_world 0 [] [])))
      = Some (tool_success ''create_network'')"
    by (simp add: make_net_def)
  have e: "fst (ExecutePlan (NewServer sim_client) (Some scenario_text) (sim_world 0 [''c1''] [])) = conflict_reply"
    by (simp add: conflict_run)
  from bad conflict_fails
  have "Result (fst (ExecutePlan (NewServer sim_client) (Some scenario_text) (sim_world 0 [''c1''] []))) = None"
    by blast
  with e have f: "Result conflict_reply = None" by simp
  from bad have "exactly_one_populated (fst (ExecutePlan (NewServer sim_client) (Some scenario_text) (sim_world 0 [''c1''] [])))"
    by blast
  with e have g: "exactly_one_populated conflict_reply" by simp
  have h: "Error conflict_reply = Some \<lparr>Code = - 32000,
        Message = ''failed to execute tool create_container: '' @ conflict_message\<rparr>"
    by (simp add: conflict_reply_def new_response_def)
  note un = Envelope_exactly_one [of "NewServer sim_client" "Some scenario_text" "sim_world 0 [] []"
      make_net_unnamed]
  from un make_net_unnamed_fails
  have "Result (fst (CallTool (NewServer sim_client) make_net_unnamed (sim_world 0 [] []))) = None"
    by blast
  then have i: "Result (error_reply (- 32000) ''failed to execute tool create_network: missing network name'') = None"
    by (simp only: make_net_unnamed_run)
  from scenario_succeeds a b conflict_fails e f h make_net_succeeds c' d make_net_unnamed_fails
    make_net_unnamed_run i g
  show ?thesis by blast
qed

section \<open>Parameters that are not an object\<close>

text \<open>
  C10. An action whose \<^verbatim>\<open>"parameters"\<close> is present and is not a JSON object:
  \<open>ExecutePlan\<close> returns on the plan what it returns on the plan with the key removed
  from that action, so no error is reported for the bag itself. Whenever the actions
  before it have run without error and the action names a registered tool, the loop
  invokes that tool's handler, in the world the actions before it left and under the
  plan's context, with the empty parameter bag: the invocation is in the trace at the
  action's position, its outcome is what the handler returns on the empty bag, and when
  the handler refuses the empty bag the reply is the execution error with the handler's
  message, the world is the one the handler left and no later action runs.
\<close>

theorem non_object_parameters_as_absent:
  assumes "map_of action ''parameters'' = Some v" and "\<not> is_object v"
      and "json_Unmarshal text = Inr (before @ action # after)"
      and "json_Unmarshal text' = Inr (before @ AList.delete ''parameters'' action # after)"
  shows "ExecutePlan s (Some text) w = ExecutePlan s (Some text') w
       \<and> map_of (AList.delete ''parameters'' action) ''parameters'' = None
       \<and> planned (before @ action # after) ! length before = (fst (as_string (map_of action ''action'')), [])
       \<and> (\<forall>reply w' invs. ExecutePlan s (Some text) w = (reply, w', invs) \<and> length before < length invs \<longrightarrow>
            inv_params (invs ! length before) = [])
       \<and> (\<forall>name tool w1 invs1.
            run_actions s (plan_context s w) before w = (None, w1, invs1)
            \<and> as_string (map_of action ''action'') = (name, True) \<and> name \<noteq> []
            \<and> tools s name = Some tool \<longrightarrow>
            (\<exists>reply w' later.
               ExecutePlan s (Some text) w =
                 (reply, w',
                  invs1 @ Invocation name (plan_context s w) []
                            (fst (Handler tool (plan_context s w) (dockerClient s) [] w1)) # later)
               \<and> length invs1 = length before
               \<and> (\<forall>err w2. Handler tool (plan_context s w) (dockerClient s) [] w1 = (Some err, w2) \<longrightarrow>
                     reply = error_reply (- 32000) (''failed to execute tool '' @ name @ '': '' @ err)
                     \<and> w' = w2 \<and> later = [])))"
proof -
  have step: "run_actions s ctx (before @ action # after) w
      = run_actions s ctx (before @ AList.delete ''parameters'' action # after) w" for ctx
    by (rule run_actions_middle_cong) (rule run_actions_non_object [OF assms(1,2)])
  have eq: "ExecutePlan s (Some text) w = ExecutePlan s (Some text') w"
    by (rule ExecutePlan_cong [OF assms(3,4) _ _ step]) simp_all
  have absent: "map_of (AList.delete ''parameters'' action) ''parameters'' = None"
    by (simp add: AList.delete_conv')
  from assms(1,2) have bag: "as_map (map_of action ''parameters'') = []"
    by (simp add: as_map_not_object)
  from bag have pl: "planned (before @ action # after) ! length before
      = (fst (as_string (map_of action ''action'')), [])"
    by (simp add: planned_def nth_append)
  have ne: "before @ action # after \<noteq> []" by simp
  have inv: "inv_params (invs ! length before) = []"
    if run: "ExecutePlan s (Some text) w = (reply, w', invs)" and len: "length before < length invs"
    for reply w' invs
  proof -
    from ExecutePlan_runs [OF assms(3) ne run] obtain e where
      "run_actions s (WithTimeout Background (now (dockerClient s) (engine w)) (30 * Second))
         (before @ action # after) w = (e, w', invs)"
      by blast
    from run_actions_trace [OF this]
    have "map inv_call invs = take (length invs) (planned (before @ action # after))" by simp
    with len have "inv_call (invs ! length before) = planned (before @ action # after) ! length before"
      by (metis nth_map nth_take)
    with pl show ?thesis by (simp add: inv_call_def)
  qed
  have invoked: "\<exists>reply w' later.
               ExecutePlan s (Some text) w =
                 (reply, w',
                  invs1 @ Invocation name (plan_context s w) []
                            (fst (Handler tool (plan_context s w) (dockerClient s) [] w1)) # later)
               \<and> length invs1 = length before
               \<and> (\<forall>err w2. Handler tool (plan_context s w) (dockerClient s) [] w1 = (Some err, w2) \<longrightarrow>
                     reply = error_reply (- 32000) (''failed to execute tool '' @ name @ '': '' @ err)
                     \<and> w' = w2 \<and> later = [])"
    if pre: "run_actions s (plan_context s w) before w = (None, w1, invs1)"
      and nm: "as_string (map_of action ''action'') = (name, True)" "name \<noteq> []"
      and tl: "tools s name = Some tool"
    for name tool w1 invs1
  proof -
    let ?ctx = "plan_context s w"
    let ?inv = "Invocation name ?ctx [] (fst (Handler tool ?ctx (dockerClient s) [] w1))"
    from run_actions_empty_bag [OF nm tl bag, of ?ctx after w1]
    obtain e w' later where
      one: "run_actions s ?ctx (action # after) w1 = (e, w', ?inv # later)"
      and fail: "\<forall>err w2. Handler tool ?ctx (dockerClient s) [] w1 = (Some err, w2) \<longrightarrow>
             e = Some (NewError (- 32000) (''failed to execute tool '' @ name @ '': '' @ err))
             \<and> w' = w2 \<and> later = []"
      by blast
    from pre one have "run_actions s ?ctx (before @ action # after) w = (e, w', invs1 @ ?inv # later)"
      by (simp add: run_actions_append)
    from ExecutePlan_of_run [OF assms(3) ne this]
    have ex: "ExecutePlan s (Some text) w =
           ((case e of Some err \<Rightarrow> new_response\<lparr>Error := Some err\<rparr>
                     | None \<Rightarrow> new_response\<lparr>Result := Some plan_success\<rparr>), w', invs1 @ ?inv # later)" .
    have len: "length invs1 = length before"
      by (rule run_actions_None_length [OF pre])
    have rep: "(case e of Some err \<Rightarrow> new_response\<lparr>Error := Some err\<rparr>
                     | None \<Rightarrow> new_response\<lparr>Result := Some plan_success\<rparr>)
          = error_reply (- 32000) (''failed to execute tool '' @ name @ '': '' @ err) \<and> w' = w2 \<and> later = []"
      if hf: "Handler tool ?ctx (dockerClient s) [] w1 = (Some err, w2)" for err w2
    proof -
      from fail hf have "e = Some (NewError (- 32000) (''failed to execute tool '' @ name @ '': '' @ err))"
        and "w' = w2" and "later = []"
        by blast+
      then show ?thesis
        by (simp add: error_reply_def new_response_def NewError_def JSONRPCVersion_def)
    qed
    show ?thesis
    proof (intro exI conjI allI impI)
      show "ExecutePlan s (Some text) w =
           ((case e of Some err \<Rightarrow> new_response\<lparr>Error := Some err\<rparr>
                     | None \<Rightarrow> new_response\<lparr>Result := Some plan_success\<rparr>), w', invs1 @ ?inv # later)"
        by (rule ex)
      show "length invs1 = length before" by (rule len)
    next
      fix err w2
      assume hf: "Handler tool ?ctx (dockerClient s) [] w1 = (Some err, w2)"
      from rep [OF hf]
      show "(case e of Some err \<Rightarrow> new_response\<lparr>Error := Some err\<rparr>
                     | None \<Rightarrow> new_response\<lparr>Result := Some plan_success\<rparr>)
          = error_reply (- 32000) (''failed to execute tool '' @ name @ '': '' @ err)"
        and "w' = w2" and "later = []"
        by blast+
    qed
  qed
  have inv': "\<forall>reply w' invs. ExecutePlan s (Some text) w = (reply, w', invs) \<and> length before < length invs \<longrightarrow>
            inv_params (invs ! length before) = []"
    using inv by blast
  have invoked': "\<forall>name tool w1 invs1.
            run_actions s (plan_context s w) before w = (None, w1, invs1)
            \<and> as_string (map_of action ''action'') = (name, True) \<and> name \<noteq> []
            \<and> tools s name = Some tool \<longrightarrow>
            (\<exists>reply w' later.
               ExecutePlan s (Some text) w =
                 (reply, w',
                  invs1 @ Invocation name (plan_context s w) []
                            (fst (Handler tool (plan_context s w) (dockerClient s) [] w1)) # later)
               \<and> length invs1 = length before
               \<and> (\<forall>err w2. Handler tool (plan_context s w) (dockerClient s) [] w1 = (Some err, w2) \<longrightarrow>
                     reply = error_reply (- 32000) (''failed to execute tool '' @ name @ '': '' @ err)
                     \<and> w' = w2 \<and> later = []))"
  proof (intro allI impI, elim conjE)
    fix name tool w1 invs1
    assume "run_actions s (plan_context s w) before w = (None, w1, invs1)"
      "as_string (map_of action ''action'') = (name, True)" "name \<noteq> []" "tools s name = Some tool"
    then show "\<exists>reply w' later.
               ExecutePlan s (Some text) w =
                 (reply, w',
                  invs1 @ Invocation name (plan_context s w) []
                            (fst (Handler tool (plan_context s w) (dockerClient s) [] w1)) # later)
               \<and> length invs1 = length before
               \<and> (\<forall>err w2. Handler tool (plan_context s w) (dockerClient s) [] w1 = (Some err, w2) \<longrightarrow>
                     reply = error_reply (- 32000) (''failed to execute tool '' @ name @ '': '' @ err)
                     \<and> w' = w2 \<and> later = [])"
      by (rule invoked)
  qed
  show ?thesis by (intro conjI eq absent pl inv' invoked')
qed

theorem non_object_parameters_as_absent_witness:
  "map_of volume_action ''parameters'' = Some (JArray [JString ''vol1''])
   \<and> \<not> is_object (JArray [JString ''vol1''])
   \<and> json_Unmarshal mixed_text = Inr [net_action, volume_action, run_action]
   \<and> json_Unmarshal mixed_text_absent =
       Inr [net_action, [(''action'', JString ''create_volume'')], run_action]
   \<and> run_actions (NewServer sim_client) plan_ctx [net_action] (sim_world 0 [] []) =
       (None, net_done_world, [Invocation ''create_network'' plan_ctx [(''name'', JString ''net1'')] None])
   \<and> ExecutePlan (NewServer sim_client) (Some mixed_text) (sim_world 0 [] []) =
       (error_reply (- 32000) (''failed to execute tool create_volume: '' @ volume_message),
        net_done_world,
        [Invocation ''create_network'' plan_ctx [(''name'', JString ''net1'')] None,
         Invocation ''create_volume'' plan_ctx [] (Some volume_message)])
   \<and> ExecutePlan (NewServer sim_client) (Some mixed_text_absent) (sim_world 0 [] []) =
       (error_reply (- 32000) (''failed to execute tool create_volume: '' @ volume_message),
        net_done_world,
        [Invocation ''create_network'' plan_ctx [(''name'', JString ''net1'')] None,
         Invocation ''create_volume'' plan_ctx [] (Some volume_message)])"
proof -
  let ?s = "NewServer sim_client :: sim Server"
  let ?w = "sim_world 0 [] []"
  have a: "map_of volume_action ''parameters'' = Some (JArray [JString ''vol1''])"
    by (simp add: volume_action_def)
  have b: "\<not> is_object (JArray [JString ''vol1''])" by simp
  note t = non_object_parameters_as_absent [OF a b mixed_unmarshal mixed_absent_unmarshal, of ?s ?w]
  have nm: "as_string (map_of volume_action ''action'') = (''create_volume'', True)" "''create_volume'' \<noteq> []"
    by (simp_all add: volume_action_def)
  have tl: "tools ?s ''create_volume'' =
      Some \<lparr>Name = ''create_volume'', Description = ''Create a Docker volume'',
            InputSchema = name_schema ''Name of the volume'', Handler = create_volume_handler\<rparr>"
    by (simp add: NewServer_def RegisterTool_def)
  have cl: "dockerClient ?s = sim_client" by (simp add: NewServer_def RegisterTool_def)
  from t mixed_before nm tl obtain reply w' later where
    ex: "ExecutePlan ?s (Some mixed_text) ?w =
           (reply, w',
            [Invocation ''create_network'' plan_ctx [(''name'', JString ''net1'')] None]
            @ Invocation ''create_volume'' (plan_context ?s ?w) []
                (fst (Handler \<lparr>Name = ''create_volume'', Description = ''Create a Docker volume'',
                        InputSchema = name_schema ''Name of the volume'', Handler = create_volume_handler\<rparr>
                      (plan_context ?s ?w) (dockerClient ?s) [] net_done_world)) # later)"
    and fl: "\<forall>err w2. Handler \<lparr>Name = ''create_volume'', Description = ''Create a Docker volume'',
                        InputSchema = name_schema ''Name of the volume'', Handler = create_volume_handler\<rparr>
                      (plan_context ?s ?w) (dockerClient ?s) [] net_done_world = (Some err, w2) \<longrightarrow>
                reply = error_reply (- 32000) (''failed to execute tool '' @ ''create_volume'' @ '': '' @ err)
                \<and> w' = w2 \<and> later = []"
    by blast
  have h: "Handler \<lparr>Name = ''create_volume'', Description = ''Create a Docker volume'',
                        InputSchema = name_schema ''Name of the volume'', Handler = create_volume_handler\<rparr>
                      (plan_context ?s ?w) (dockerClient ?s) [] net_done_world
           = (Some volume_message, net_done_world)"
    by (simp add: mixed_context cl volume_handler_empty)
  from fl h have r: "reply = error_reply (- 32000) (''failed to execute tool '' @ ''create_volume'' @ '': '' @ volume_message)"
    "w' = net_done_world" "later = []"
    by blast+
  from ex r h have run: "ExecutePlan ?s (Some mixed_text) ?w =
       (error_reply (- 32000) (''failed to execute tool create_volume: '' @ volume_message),
        net_done_world,
        [Invocation ''create_network'' plan_ctx [(''name'', JString ''net1'')] None,
         Invocation ''create_volume'' plan_ctx [] (Some volume_message)])"
    by (simp add: mixed_context)
  from t have "ExecutePlan ?s (Some mixed_text) ?w = ExecutePlan ?s (Some mixed_text_absent) ?w"
    by blast
  with run have run': "ExecutePlan ?s (Some mixed_text_absent) ?w =
       (error_reply (- 32000) (''failed to execute tool create_volume: '' @ volume_message),
        net_done_world,
        [Invocation ''create_network'' plan_ctx [(''name'', JString ''net1'')] None,
         Invocation ''create_volume'' plan_ctx [] (Some volume_message)])"
    by simp
  from mixed_unmarshal have u1: "json_Unmarshal mixed_text = Inr [net_action, volume_action, run_action]"
    by simp
  from mixed_absent_unmarshal have u2: "json_Unmarshal mixed_text_absent =
       Inr [net_action, [(''action'', JString ''create_volume'')], run_action]"
    by (simp add: volume_action_def)
  from mixed_before have mb: "run_actions ?s plan_ctx [net_action] ?w =
       (None, net_done_world, [Invocation ''create_network'' plan_ctx [(''name'', JString ''net1'')] None])"
    by (simp add: mixed_context)
  from a b u1 u2 mb run run' show ?thesis by blast
qed

end
